theory Spec2Isabelle
  imports Main
begin

section \<open>Stored documents\<close>

text \<open>
  The application keeps its state in MongoDB collections of documents and sends documents
  back as JSON. A document is a Python \<^verbatim>\<open>dict\<close> from field names to values; a
  value is \<^verbatim>\<open>None\<close>, a boolean, an integer, a string, a \<^verbatim>\<open>bson.ObjectId\<close>
  (written by its 24 hexadecimal digits, which is what \<^verbatim>\<open>str\<close> returns for it), a
  naive \<^verbatim>\<open>datetime\<close>, a list of values or a nested document. A dict is an
  association list in insertion order; Python keeps that order, and a well-formed
  document has no field twice.
\<close>

datatype datetime = Datetime (dt_year: nat) (dt_month: nat) (dt_day: nat)
  (dt_hour: nat) (dt_minute: nat) (dt_second: nat) (dt_microsecond: nat)

datatype val =
    VNone
  | VBool bool
  | VInt int
  | VStr string
  | VObjectId string
  | VDatetime datetime
  | VList "val list"
  | VDict "(string \<times> val) list"

type_synonym doc = "(string \<times> val) list"

fun opt_val :: "doc option \<Rightarrow> val" where
  "opt_val None = VNone"
| "opt_val (Some d) = VDict d"

text \<open>
  A JSON value as a request body carries it, and the Python value that
  \<^verbatim>\<open>request.get_json()\<close> makes of it. The values of a body are exactly the values in
  which no ObjectId and no datetime occurs.
\<close>

datatype jval =
    JNull
  | JBool bool
  | JInt int
  | JStr string
  | JList "jval list"
  | JObject "(string \<times> jval) list"

fun of_json :: "jval \<Rightarrow> val" where
  "of_json JNull = VNone"
| "of_json (JBool b) = VBool b"
| "of_json (JInt i) = VInt i"
| "of_json (JStr s) = VStr s"
| "of_json (JList js) = VList (map of_json js)"
| "of_json (JObject d) = VDict (map (\<lambda>kv. (fst kv, of_json (snd kv))) d)"

fun is_json :: "val \<Rightarrow> bool" where
  "is_json (VObjectId s) = False"
| "is_json (VDatetime t) = False"
| "is_json (VList xs) = list_all is_json xs"
| "is_json (VDict d) = list_all (\<lambda>kv. is_json (snd kv)) d"
| "is_json v = True"

definition pop :: "string \<Rightarrow> doc \<Rightarrow> doc" where
  "pop key d = filter (\<lambda>kv. fst kv \<noteq> key) d"

text \<open>Python truthiness, as \<^verbatim>\<open>if not v\<close> and \<^verbatim>\<open>all(...)\<close> read it.\<close>

fun truthy :: "val \<Rightarrow> bool" where
  "truthy VNone = False"
| "truthy (VBool b) = b"
| "truthy (VInt i) = (i \<noteq> 0)"
| "truthy (VStr s) = (s \<noteq> [])"
| "truthy (VObjectId s) = True"
| "truthy (VDatetime t) = True"
| "truthy (VList xs) = (xs \<noteq> [])"
| "truthy (VDict d) = (d \<noteq> [])"

definition has_key :: "string \<Rightarrow> doc \<Rightarrow> bool" where
  "has_key k d = (k \<in> fst ` set d)"

text \<open>\<^verbatim>\<open>d.get(k)\<close>: the value of the field, \<^verbatim>\<open>None\<close> when it is absent.\<close>

definition get :: "doc \<Rightarrow> string \<Rightarrow> val" where
  "get d k = (case map_of d k of None \<Rightarrow> VNone | Some v \<Rightarrow> v)"

definition get_default :: "doc \<Rightarrow> string \<Rightarrow> val \<Rightarrow> val" where
  "get_default d k dflt = (case map_of d k of None \<Rightarrow> dflt | Some v \<Rightarrow> v)"

text \<open>\<^verbatim>\<open>d[k] = v\<close>: an existing field keeps its place, a new one goes last.\<close>

fun put :: "string \<Rightarrow> val \<Rightarrow> doc \<Rightarrow> doc" where
  "put k v [] = [(k, v)]"
| "put k v ((k', v') # d) = (if k' = k then (k, v) # d else (k', v') # put k v d)"

text \<open>
  \<^verbatim>\<open>datetime.isoformat()\<close> and \<^verbatim>\<open>strftime("%Y-%m-%d %H:%M:%S")\<close>, with the
  fields zero-padded to their widths; the microseconds appear in the ISO form only when
  they are not zero. \<^verbatim>\<open>isoformat\<close> pads the year to four digits; the
  \<^verbatim>\<open>%Y\<close> of the C library (glibc) writes the year as it is.
\<close>

definition digit_char :: "nat \<Rightarrow> char" where
  "digit_char n = ''0123456789'' ! (n mod 10)"

fun zpad :: "nat \<Rightarrow> nat \<Rightarrow> string" where
  "zpad 0 n = (if n = 0 then [] else zpad 0 (n div 10) @ [digit_char n])"
| "zpad (Suc w) n = zpad w (n div 10) @ [digit_char n]"

fun decimal :: "nat \<Rightarrow> string" where
  "decimal n = (if n < 10 then [digit_char n] else decimal (n div 10) @ [digit_char n])"

definition isoformat :: "datetime \<Rightarrow> string" where
  "isoformat t =
     zpad 4 (dt_year t) @ ''-'' @ zpad 2 (dt_month t) @ ''-'' @ zpad 2 (dt_day t) @ ''T'' @
     zpad 2 (dt_hour t) @ '':'' @ zpad 2 (dt_minute t) @ '':'' @ zpad 2 (dt_second t) @
     (if dt_microsecond t = 0 then [] else ''.'' @ zpad 6 (dt_microsecond t))"


section \<open>The two sanitizers\<close>

text \<open>
  \<^verbatim>\<open>serialize_doc\<close> of \<^verbatim>\<open>routes/admin_routes.py\<close>: an empty or absent
  document gives \<^verbatim>\<open>None\<close>; otherwise the field \<^verbatim>\<open>password_hash\<close> is popped
  and every remaining value is converted by the \<^verbatim>\<open>if/elif\<close> chain of the loop
  (\<open>serialize_value\<close>). A list value is rebuilt by the comprehension, whose element
  expression (\<open>serialize_item\<close>) recurses into a dict, converts an ObjectId or a
  datetime and leaves every other element, a list among them, as it is.
\<close>

lemma size_field:
  "(k, v) \<in> set d \<Longrightarrow> size v < Suc (size_list (size_prod (\<lambda>_. 0) size) d)"
  by (induction d) auto

lemma size_pop_field:
  "(k, v) \<in> set (pop key d) \<Longrightarrow> size v < Suc (size_list (size_prod (\<lambda>_. 0) size) d)"
  by (rule size_field [of k]) (simp add: pop_def)

lemma size_item: "x \<in> set xs \<Longrightarrow> size x \<le> size_list size xs"
  by (induction xs) auto

function serialize_doc :: "doc option \<Rightarrow> doc option"
and serialize_value :: "val \<Rightarrow> val"
and serialize_item :: "val \<Rightarrow> val" where
  "serialize_doc None = None"
| "serialize_doc (Some d) =
     (if d = [] then None
      else Some (map (\<lambda>(k, v). (k, serialize_value v)) (pop ''password_hash'' d)))"
| "serialize_value (VObjectId s) = VStr s"
| "serialize_value (VDatetime t) = VStr (isoformat t)"
| "serialize_value (VList xs) = VList (map serialize_item xs)"
| "serialize_value (VDict d) = opt_val (serialize_doc (Some d))"
| "serialize_value VNone = VNone"
| "serialize_value (VBool b) = VBool b"
| "serialize_value (VInt i) = VInt i"
| "serialize_value (VStr s) = VStr s"
| "serialize_item (VDict d) = opt_val (serialize_doc (Some d))"
| "serialize_item (VObjectId s) = VStr s"
| "serialize_item (VDatetime t) = VStr (isoformat t)"
| "serialize_item VNone = VNone"
| "serialize_item (VBool b) = VBool b"
| "serialize_item (VInt i) = VInt i"
| "serialize_item (VStr s) = VStr s"
| "serialize_item (VList xs) = VList xs"
  by pat_completeness auto
termination
  by (relation "measure (\<lambda>x. case x of
        Inl None \<Rightarrow> 0
      | Inl (Some d) \<Rightarrow> 2 * size (VDict d)
      | Inr (Inl v) \<Rightarrow> 2 * size v + 1
      | Inr (Inr v) \<Rightarrow> 2 * size v + 1)")
     (auto dest: size_pop_field size_item)

text \<open>
  \<^verbatim>\<open>to_str_id\<close> of \<^verbatim>\<open>models/__init__.py\<close>: the same walk, converting
  ObjectIds only; it pops no field and leaves datetimes alone.
\<close>

function to_str_id :: "doc option \<Rightarrow> doc option"
and to_str_id_value :: "val \<Rightarrow> val"
and to_str_id_item :: "val \<Rightarrow> val" where
  "to_str_id None = None"
| "to_str_id (Some d) =
     (if d = [] then None
      else Some (map (\<lambda>(k, v). (k, to_str_id_value v)) d))"
| "to_str_id_value (VObjectId s) = VStr s"
| "to_str_id_value (VList xs) = VList (map to_str_id_item xs)"
| "to_str_id_value (VDict d) = opt_val (to_str_id (Some d))"
| "to_str_id_value VNone = VNone"
| "to_str_id_value (VBool b) = VBool b"
| "to_str_id_value (VInt i) = VInt i"
| "to_str_id_value (VStr s) = VStr s"
| "to_str_id_value (VDatetime t) = VDatetime t"
| "to_str_id_item (VDict d) = opt_val (to_str_id (Some d))"
| "to_str_id_item (VObjectId s) = VStr s"
| "to_str_id_item VNone = VNone"
| "to_str_id_item (VBool b) = VBool b"
| "to_str_id_item (VInt i) = VInt i"
| "to_str_id_item (VStr s) = VStr s"
| "to_str_id_item (VDatetime t) = VDatetime t"
| "to_str_id_item (VList xs) = VList xs"
  by pat_completeness auto
termination
  by (relation "measure (\<lambda>x. case x of
        Inl None \<Rightarrow> 0
      | Inl (Some d) \<Rightarrow> 2 * size (VDict d)
      | Inr (Inl v) \<Rightarrow> 2 * size v + 1
      | Inr (Inr v) \<Rightarrow> 2 * size v + 1)")
     (auto dest: size_field size_item)



text \<open>
  Every non-empty dict that \<open>serialize_doc\<close> visits has a field other than
  \<^verbatim>\<open>password_hash\<close>: popping the hash never leaves a visited dict empty.
\<close>

function keeps_field :: "doc option \<Rightarrow> bool"
and keeps_field_value :: "val \<Rightarrow> bool"
and keeps_field_item :: "val \<Rightarrow> bool" where
  "keeps_field None = True"
| "keeps_field (Some d) =
     (d = [] \<or> (pop ''password_hash'' d \<noteq> [] \<and>
        list_all (\<lambda>kv. keeps_field_value (snd kv)) (pop ''password_hash'' d)))"
| "keeps_field_value (VList xs) = list_all keeps_field_item xs"
| "keeps_field_value (VDict d) = keeps_field (Some d)"
| "keeps_field_value VNone = True"
| "keeps_field_value (VBool b) = True"
| "keeps_field_value (VInt i) = True"
| "keeps_field_value (VStr s) = True"
| "keeps_field_value (VObjectId s) = True"
| "keeps_field_value (VDatetime t) = True"
| "keeps_field_item (VDict d) = keeps_field (Some d)"
| "keeps_field_item VNone = True"
| "keeps_field_item (VBool b) = True"
| "keeps_field_item (VInt i) = True"
| "keeps_field_item (VStr s) = True"
| "keeps_field_item (VObjectId s) = True"
| "keeps_field_item (VDatetime t) = True"
| "keeps_field_item (VList xs) = True"
  by pat_completeness auto
termination
  by (relation "measure (\<lambda>x. case x of
        Inl None \<Rightarrow> 0
      | Inl (Some d) \<Rightarrow> 2 * size (VDict d)
      | Inr (Inl v) \<Rightarrow> 2 * size v + 1
      | Inr (Inr v) \<Rightarrow> 2 * size v + 1)")
     (auto dest: size_pop_field size_item)

section \<open>Python strings and the libraries at the boundary\<close>

text \<open>
  \<^verbatim>\<open>str.startswith\<close>, \<^verbatim>\<open>str.split(sep)\<close> for a one-character separator, and
  \<^verbatim>\<open>str.lower\<close>, \<^verbatim>\<open>str.upper\<close> and \<^verbatim>\<open>str.capitalize\<close> on the code points
  below 256 (the letters A to Z, and the Latin-1 letters from 192 to 222 without the
  multiplication sign 215).
\<close>

definition startswith :: "string \<Rightarrow> string \<Rightarrow> bool" where
  "startswith s p = (take (length p) s = p)"

fun split :: "char \<Rightarrow> string \<Rightarrow> string list" where
  "split c [] = [[]]"
| "split c (x # xs) =
     (if x = c then [] # split c xs
      else (case split c xs of [] \<Rightarrow> [[x]] | w # ws \<Rightarrow> (x # w) # ws))"

definition is_upper :: "char \<Rightarrow> bool" where
  "is_upper c = (let n = of_char c :: nat in
     (65 \<le> n \<and> n \<le> 90) \<or> (192 \<le> n \<and> n \<le> 222 \<and> n \<noteq> 215))"

definition is_lower :: "char \<Rightarrow> bool" where
  "is_lower c = (let n = of_char c :: nat in
     (97 \<le> n \<and> n \<le> 122) \<or> (224 \<le> n \<and> n \<le> 254 \<and> n \<noteq> 247))"

definition lower_char :: "char \<Rightarrow> char" where
  "lower_char c = (if is_upper c then char_of (of_char c + 32 :: nat) else c)"

definition upper_char :: "char \<Rightarrow> char" where
  "upper_char c = (if is_lower c then char_of (of_char c - 32 :: nat) else c)"

definition lower :: "string \<Rightarrow> string" where
  "lower s = map lower_char s"

definition capitalize :: "string \<Rightarrow> string" where
  "capitalize s = (case s of [] \<Rightarrow> [] | c # cs \<Rightarrow> upper_char c # map lower_char cs)"

text \<open>
  The exceptions met on the modelled paths. A handler that lets one escape ends as
  \<open>Unhandled\<close>, which the web framework turns into its own 500 page; every other
  outcome is the status and the value handed to \<^verbatim>\<open>jsonify\<close>.
\<close>

datatype exn =
    InvalidId string
  | KeyError string
  | AttributeError
  | TypeError
  | StorageError string

datatype response = Response (status: nat) (body: val) | Unhandled exn

text \<open>
  \<^verbatim>\<open>bson.ObjectId(s)\<close> of a string: the string must have 24 characters and be
  accepted by \<^verbatim>\<open>bytes.fromhex\<close>, which reads two adjacent hexadecimal digits for
  each byte and skips ASCII white space before a byte; anything else raises
  \<^verbatim>\<open>InvalidId\<close>. The id is written by the hexadecimal digits of its bytes, in
  lower case, as \<^verbatim>\<open>str\<close> returns it.
\<close>

definition is_space :: "char \<Rightarrow> bool" where
  "is_space c = (c \<in> set [CHR '' '', CHR 0x09, CHR 0x0A, CHR 0x0B, CHR 0x0C, CHR 0x0D])"

definition is_hex :: "char \<Rightarrow> bool" where
  "is_hex c = (c \<in> set ''0123456789abcdefABCDEF'')"

fun fromhex :: "string \<Rightarrow> string option" where
  "fromhex [] = Some []"
| "fromhex [c] = (if is_space c then Some [] else None)"
| "fromhex (c # d # cs) =
     (if is_space c then fromhex (d # cs)
      else if is_hex c \<and> is_hex d
      then (case fromhex cs of None \<Rightarrow> None
                              | Some h \<Rightarrow> Some (lower_char c # lower_char d # h))
      else None)"

definition ObjectId :: "string \<Rightarrow> exn + val" where
  "ObjectId s =
     (if length s = 24
      then (case fromhex s of None \<Rightarrow> Inl (InvalidId s) | Some h \<Rightarrow> Inr (VObjectId h))
      else Inl (InvalidId s))"

text \<open>
  \<^verbatim>\<open>jsonify\<close> serializes \<^verbatim>\<open>None\<close>, booleans, numbers, strings, datetimes,
  lists and dicts, and raises \<^verbatim>\<open>TypeError\<close> on an ObjectId at any depth.
\<close>

fun json_safe :: "val \<Rightarrow> bool" where
  "json_safe (VObjectId s) = False"
| "json_safe (VList xs) = list_all json_safe xs"
| "json_safe (VDict d) = list_all (\<lambda>kv. json_safe (snd kv)) d"
| "json_safe v = True"

definition jsonify :: "nat \<Rightarrow> val \<Rightarrow> exn + response" where
  "jsonify code v = (if json_safe v then Inr (Response code v) else Inl TypeError)"

text \<open>
  \<^verbatim>\<open>str(v)\<close> where the code formats a stored or posted value: exact on
  \<^verbatim>\<open>None\<close>, booleans, integers, strings, ObjectIds and datetimes. Lists and dicts
  are rendered through \<open>py_repr\<close>, exact for strings without quotes, backslashes and
  control characters.
\<close>

definition str_datetime :: "datetime \<Rightarrow> string" where
  "str_datetime t =
     zpad 4 (dt_year t) @ ''-'' @ zpad 2 (dt_month t) @ ''-'' @ zpad 2 (dt_day t) @ '' '' @
     zpad 2 (dt_hour t) @ '':'' @ zpad 2 (dt_minute t) @ '':'' @ zpad 2 (dt_second t) @
     (if dt_microsecond t = 0 then [] else ''.'' @ zpad 6 (dt_microsecond t))"

definition repr_datetime :: "datetime \<Rightarrow> string" where
  "repr_datetime t =
     ''datetime.datetime('' @ decimal (dt_year t) @ '', '' @ decimal (dt_month t) @ '', '' @
     decimal (dt_day t) @ '', '' @ decimal (dt_hour t) @ '', '' @ decimal (dt_minute t) @
     (if dt_second t = 0 \<and> dt_microsecond t = 0 then []
      else '', '' @ decimal (dt_second t) @
        (if dt_microsecond t = 0 then [] else '', '' @ decimal (dt_microsecond t))) @ '')''"

fun join :: "string \<Rightarrow> string list \<Rightarrow> string" where
  "join sep [] = []"
| "join sep [x] = x"
| "join sep (x # y # ys) = x @ sep @ join sep (y # ys)"

fun py_repr :: "val \<Rightarrow> string" where
  "py_repr VNone = ''None''"
| "py_repr (VBool b) = (if b then ''True'' else ''False'')"
| "py_repr (VInt i) = (if i < 0 then ''-'' @ decimal (nat (- i)) else decimal (nat i))"
| "py_repr (VStr s) = [CHR 0x27] @ s @ [CHR 0x27]"
| "py_repr (VObjectId s) = ''ObjectId('' @ [CHR 0x27] @ s @ [CHR 0x27] @ '')''"
| "py_repr (VDatetime t) = repr_datetime t"
| "py_repr (VList xs) = ''['' @ join '', '' (map py_repr xs) @ '']''"
| "py_repr (VDict d) =
     ''{'' @ join '', '' (map (\<lambda>kv. [CHR 0x27] @ fst kv @ [CHR 0x27] @ '': '' @ py_repr (snd kv)) d)
     @ ''}''"

definition py_str :: "val \<Rightarrow> string" where
  "py_str v = (case v of VStr s \<Rightarrow> s | VObjectId s \<Rightarrow> s | VDatetime t \<Rightarrow> str_datetime t
               | _ \<Rightarrow> py_repr v)"

text \<open>
  PyJWT is outside the repository. \<^verbatim>\<open>jwt.decode(token, key, algorithms=["HS256"])\<close>
  at the time of the request is a parameter: for each token string, the payload or the
  exception raised. \<^verbatim>\<open>ExpiredSignatureError\<close> is what PyJWT raises for a well-formed,
  correctly signed token whose \<^verbatim>\<open>exp\<close> is in the past; \<^verbatim>\<open>DecodeError\<close> (a
  malformed token) and \<^verbatim>\<open>InvalidSignatureError\<close> are the other two classes, both
  caught as \<^verbatim>\<open>InvalidTokenError\<close>.
\<close>

datatype jwt_error = ExpiredSignatureError | DecodeError | InvalidSignatureError

type_synonym jwt_decode = "string \<Rightarrow> jwt_error + doc"

text \<open>
  An uploaded file of a multipart request, with the length of what \<^verbatim>\<open>file.read()\<close>
  returns, and the request as the handlers read it: headers, the JSON body (an object, or
  \<^verbatim>\<open>null\<close>), form fields and uploaded files.
\<close>

record upload =
  filename :: string
  content_type :: string
  file_size :: nat

record request =
  headers :: "(string \<times> string) list"
  json :: "(string \<times> jval) list option"
  form :: "(string \<times> string) list"
  files :: "upload list"

text \<open>
  \<^verbatim>\<open>request.headers.get(name, default)\<close>: the first header of that name, the
  names compared without regard to letter case.
\<close>

definition header :: "request \<Rightarrow> string \<Rightarrow> string \<Rightarrow> string" where
  "header req name dflt =
     (case List.find (\<lambda>kv. lower (fst kv) = lower name) (headers req) of
        None \<Rightarrow> dflt
      | Some kv \<Rightarrow> snd kv)"

text \<open>
  \<^verbatim>\<open>request.get_json() or {}\<close> for a request whose content type is JSON: the body
  is a JSON object, or the JSON value \<^verbatim>\<open>null\<close> (\<open>None\<close> here), which reads as the
  empty dict. A request of another content type is outside the model.
\<close>

definition get_json_or_empty :: "request \<Rightarrow> doc" where
  "get_json_or_empty req =
     (case json req of None \<Rightarrow> [] | Some d \<Rightarrow> map (\<lambda>kv. (fst kv, of_json (snd kv))) d)"

section \<open>Collections\<close>

text \<open>
  A collection is the list of its documents in insertion order. A query is a document of
  field values, all of which must match: MongoDB equality holds when the stored value is
  the queried one or is an array that contains it, and an absent field reads as
  \<^verbatim>\<open>None\<close>.
\<close>

type_synonym collection = "doc list"

definition field_matches :: "val \<Rightarrow> val \<Rightarrow> bool" where
  "field_matches stored q = (stored = q \<or> (case stored of VList xs \<Rightarrow> q \<in> set xs | _ \<Rightarrow> False))"

definition matches :: "doc \<Rightarrow> doc \<Rightarrow> bool" where
  "matches query d = list_all (\<lambda>kq. field_matches (get d (fst kq)) (snd kq)) query"

definition find_one :: "collection \<Rightarrow> doc \<Rightarrow> doc option" where
  "find_one col query = List.find (matches query) col"

definition find_all :: "collection \<Rightarrow> doc \<Rightarrow> doc list" where
  "find_all col query = filter (matches query) col"

text \<open>
  BSON keeps a datetime to the millisecond: what is written to a collection has its
  datetimes truncated, at any depth.
\<close>

definition milliseconds :: "datetime \<Rightarrow> datetime" where
  "milliseconds t =
     Datetime (dt_year t) (dt_month t) (dt_day t) (dt_hour t) (dt_minute t) (dt_second t)
       (dt_microsecond t div 1000 * 1000)"

fun bson :: "val \<Rightarrow> val" where
  "bson (VDatetime t) = VDatetime (milliseconds t)"
| "bson (VList xs) = VList (map bson xs)"
| "bson (VDict d) = VDict (map (\<lambda>kv. (fst kv, bson (snd kv))) d)"
| "bson v = v"

definition bson_doc :: "doc \<Rightarrow> doc" where
  "bson_doc d = map (\<lambda>kv. (fst kv, bson (snd kv))) d"

text \<open>
  \<^verbatim>\<open>insert_one\<close> stores the document with the fresh \<^verbatim>\<open>_id\<close> the driver
  generated for it; \<^verbatim>\<open>update_one\<close> with \<^verbatim>\<open>$set\<close> and \<^verbatim>\<open>delete_one\<close> act
  on the first match.
\<close>

definition insert_one :: "collection \<Rightarrow> doc \<Rightarrow> string \<Rightarrow> collection" where
  "insert_one col d oid = col @ [bson_doc (put ''_id'' (VObjectId oid) d)]"




section \<open>Token verification and the guarded handlers\<close>

definition err :: "string \<Rightarrow> val" where
  "err msg = VDict [(''error'', VStr msg)]"

text \<open>\<^verbatim>\<open>d[k]\<close>, which raises \<^verbatim>\<open>KeyError\<close> on an absent field.\<close>

definition index :: "doc \<Rightarrow> string \<Rightarrow> exn + val" where
  "index d k = (case map_of d k of None \<Rightarrow> Inl (KeyError k) | Some v \<Rightarrow> Inr v)"

text \<open>\<^verbatim>\<open>str(e)\<close> of a caught exception, in the libraries' wording.\<close>

definition exn_str :: "exn \<Rightarrow> string" where
  "exn_str e = (case e of
       InvalidId s \<Rightarrow> [CHR 0x27] @ s @ [CHR 0x27] @
         '' is not a valid ObjectId, it must be a 12-byte input or a 24-character hex string''
     | KeyError k \<Rightarrow> [CHR 0x27] @ k @ [CHR 0x27]
     | AttributeError \<Rightarrow> ''object has no attribute''
     | TypeError \<Rightarrow> ''Object of type ObjectId is not JSON serializable''
     | StorageError m \<Rightarrow> m)"

text \<open>
  \<^verbatim>\<open>verify_token\<close>, as \<^verbatim>\<open>utils/common.py\<close>, \<^verbatim>\<open>app.py\<close>,
  \<^verbatim>\<open>routes/admin_routes.py\<close> and \<^verbatim>\<open>routes/case_routes.py\<close> each write it (the
  copy in \<^verbatim>\<open>routes/officer_routes.py\<close> catches every exception in one clause, with
  the same result): no bearer header, an expired token and an invalid token all return
  \<^verbatim>\<open>None\<close>.
\<close>

definition verify_token :: "jwt_decode \<Rightarrow> request \<Rightarrow> doc option" where
  "verify_token decode req =
     (let auth_header = header req ''Authorization'' [] in
      if \<not> startswith auth_header ''Bearer '' then None
      else (case decode (split CHR '' '' auth_header ! 1) of
              Inr payload \<Rightarrow> Some payload
            | Inl ExpiredSignatureError \<Rightarrow> None
            | Inl _ \<Rightarrow> None))"




text \<open>
  \<^verbatim>\<open>require_admin\<close> of \<^verbatim>\<open>routes/admin_routes.py\<close> and \<^verbatim>\<open>admin_required\<close>
  of \<^verbatim>\<open>app.py\<close>: one test for a missing identity and for a role that is not admin.
\<close>

definition require_admin :: "jwt_decode \<Rightarrow> request \<Rightarrow> doc option" where
  "require_admin decode req =
     (let user = verify_token decode req in
      if \<not> truthy (opt_val user) \<or> get (the user) ''role'' \<noteq> VStr ''admin'' then None
      else user)"

definition admin_required :: "jwt_decode \<Rightarrow> request \<Rightarrow> doc option" where
  "admin_required decode req =
     (let token_data = verify_token decode req in
      if \<not> truthy (opt_val token_data) \<or> get (the token_data) ''role'' \<noteq> VStr ''admin''
      then None
      else token_data)"






section \<open>Reading cases\<close>

text \<open>
  \<^verbatim>\<open>get_case\<close> of \<^verbatim>\<open>routes/case_routes.py\<close> (GET /api/cases/id) reads no header
  and no token: the request is an argument here only so that this can be said.
\<close>

definition get_case :: "collection \<Rightarrow> request \<Rightarrow> string \<Rightarrow> response" where
  "get_case cases req case_id =
     (case (case ObjectId case_id of
              Inl e \<Rightarrow> Inl e
            | Inr oid \<Rightarrow>
                (let c = find_one cases [(''_id'', oid)] in
                 if \<not> truthy (opt_val c) then Inr (Response 404 (err ''Case not found''))
                 else jsonify 200 (opt_val (to_str_id c)))) of
        Inl e \<Rightarrow> Response 500 (err (exn_str e))
      | Inr r \<Rightarrow> r)"

text \<open>
  \<^verbatim>\<open>get_cases_by_citizen\<close> of \<^verbatim>\<open>models/case_model.py\<close> and \<^verbatim>\<open>view_complaints\<close>
  of \<^verbatim>\<open>routes/citizen_routes.py\<close> (GET /api/citizen/citizen_id/cases): the citizen is
  the one named in the path.
\<close>

definition get_cases_by_citizen :: "collection \<Rightarrow> string \<Rightarrow> exn + val list" where
  "get_cases_by_citizen cases citizen_id =
     (case ObjectId citizen_id of
        Inl e \<Rightarrow> Inl e
      | Inr oid \<Rightarrow>
          Inr (map (\<lambda>c. opt_val (to_str_id (Some c))) (find_all cases [(''citizen_id'', oid)])))"

definition view_complaints :: "collection \<Rightarrow> request \<Rightarrow> string \<Rightarrow> response" where
  "view_complaints cases req citizen_id =
     (case get_cases_by_citizen cases citizen_id of
        Inl e \<Rightarrow> Unhandled e
      | Inr cs \<Rightarrow> (case jsonify 200 (VList cs) of Inl e \<Rightarrow> Unhandled e | Inr r \<Rightarrow> r))"

section \<open>Officer FIRs\<close>

text \<open>
  Python's \<^verbatim>\<open>==\<close> on values: a boolean equals the integer 0 or 1 it stands for,
  lists are compared element by element, dicts field by field in any order, and values of
  different kinds are otherwise unequal.
\<close>

lemma size_map_of [termination_simp]:
  "map_of d k = Some v \<Longrightarrow> size v < Suc (size_list (size_prod (\<lambda>_. 0) size) d)"
  by (rule size_field [of k]) (rule map_of_SomeD)

fun py_eq :: "val \<Rightarrow> val \<Rightarrow> bool" where
  "py_eq (VBool a) (VInt i) = ((if a then 1 else 0) = i)"
| "py_eq (VInt i) (VBool a) = ((if a then 1 else 0) = i)"
| "py_eq (VList xs) (VList ys) = list_all2 py_eq xs ys"
| "py_eq (VDict d) (VDict e) =
     (length d = length e \<and>
      list_all (\<lambda>kv. case map_of e (fst kv) of None \<Rightarrow> False
                                               | Some w \<Rightarrow> py_eq (snd kv) w) d)"
| "py_eq v w = (v = w)"

text \<open>
  \<^verbatim>\<open>verify_token\<close> of \<^verbatim>\<open>routes/officer_routes.py\<close> has the result of
  \<open>verify_token\<close> above. \<^verbatim>\<open>ObjectId(v)\<close> of a value read from a token payload:
  a string is parsed, \<^verbatim>\<open>None\<close> makes the driver generate a fresh id (which no
  stored document has), anything else raises \<^verbatim>\<open>TypeError\<close>.
\<close>

datatype oid_arg = Parsed val | Fresh

definition ObjectId_of :: "val \<Rightarrow> exn + oid_arg" where
  "ObjectId_of v = (case v of
       VStr s \<Rightarrow> (case ObjectId s of Inl e \<Rightarrow> Inl e | Inr oid \<Rightarrow> Inr (Parsed oid))
     | VNone \<Rightarrow> Inr Fresh
     | _ \<Rightarrow> Inl TypeError)"

text \<open>
  \<^verbatim>\<open>create_officer_fir\<close> (POST /api/officer/fir). The arguments beyond the request
  are the two collections, the clock reading of \<^verbatim>\<open>datetime.utcnow()\<close> and the id
  the driver generates for the inserted document; the result is the response and the
  collection of FIRs afterwards.
\<close>

definition required_fields :: "string list" where
  "required_fields =
     [''title'', ''category'', ''complainant_name'', ''contact'', ''location'', ''description'']"

definition create_officer_fir ::
  "jwt_decode \<Rightarrow> collection \<Rightarrow> collection \<Rightarrow> request \<Rightarrow> datetime \<Rightarrow> string
     \<Rightarrow> response \<times> collection" where
  "create_officer_fir decode users firs req now new_id =
     (let payload = verify_token decode req in
      if \<not> truthy (opt_val payload) then (Response 401 (err ''Unauthorized''), firs)
      else
        (let officer_id = get (the payload) ''user_id'' in
         case ObjectId_of officer_id of
           Inl e \<Rightarrow> (Unhandled e, firs)
         | Inr arg \<Rightarrow>
            (let officer = (case arg of
                   Fresh \<Rightarrow> None
                 | Parsed oid \<Rightarrow> find_one users [(''_id'', oid), (''role'', VStr ''officer'')]) in
             if \<not> truthy (opt_val officer) then (Response 404 (err ''Officer not found''), firs)
             else
               (let data = get_json_or_empty req in
                if \<not> list_all (\<lambda>f. truthy (get data f)) required_fields
                then (Response 400 (err ''Missing required fields''), firs)
                else
                  (let fir_doc =
                     [(''title'', get data ''title''),
                      (''category'', get data ''category''),
                      (''complainant_name'', get data ''complainant_name''),
                      (''contact'', get data ''contact''),
                      (''location'', get data ''location''),
                      (''description'', get data ''description''),
                      (''officer_id'', officer_id),
                      (''officer_name'',
                         get_default (the officer) ''name'' (VStr ''Unknown Officer'')),
                      (''status'', VStr ''Pending''),
                      (''priority'', get_default data ''priority'' (VStr ''Normal'')),
                      (''created_at'', VDatetime now),
                      (''updated_at'', VDatetime now)];
                     firs' = insert_one firs fir_doc new_id
                   in case jsonify 201 (VDict
                          [(''message'', VStr ''FIR created successfully''),
                           (''fir'', VDict (put ''_id'' (VStr new_id) fir_doc))]) of
                        Inl e \<Rightarrow> (Unhandled e, firs')
                      | Inr r \<Rightarrow> (r, firs'))))))"












section \<open>Users: registration, admin creation and login\<close>

text \<open>
  What the handlers take from outside the repository: Werkzeug's password hashing (with
  the salt it draws), PyJWT's \<^verbatim>\<open>encode\<close> under the secret key, the date
  arithmetic of \<^verbatim>\<open>datetime + timedelta(days=n)\<close>, and MongoDB's evaluation of a
  query in which a value is an operator document such as \<^verbatim>\<open>{"$regex": ...}\<close>.
\<close>

record library =
  generate_password_hash :: "string \<Rightarrow> string"
  check_password_hash :: "string \<Rightarrow> string \<Rightarrow> bool"
  jwt_encode :: "doc \<Rightarrow> string"
  add_days :: "datetime \<Rightarrow> nat \<Rightarrow> datetime"
  find_with_operators :: "collection \<Rightarrow> doc \<Rightarrow> doc option"

text \<open>
  \<^verbatim>\<open>create_user\<close> of \<^verbatim>\<open>models/user_model.py\<close>: the result is what the function
  returns (a dict, or an exception for an email or a password that is no string) and the
  users collection afterwards.
\<close>

definition create_user ::
  "library \<Rightarrow> collection \<Rightarrow> datetime \<Rightarrow> string \<Rightarrow> val \<Rightarrow> val \<Rightarrow> val \<Rightarrow> val \<Rightarrow> val \<Rightarrow> string
     \<Rightarrow> (exn + doc option) \<times> collection" where
  "create_user lib users now new_id first_name last_name email phone password role =
     (case email of
        VStr e \<Rightarrow>
          (if truthy (opt_val (find_one users [(''email'', VStr (lower e))]))
           then (Inr (Some [(''error'', VStr ''Email already registered'')]), users)
           else (case password of
                   VStr pw \<Rightarrow>
                     (let user_doc =
                        [(''first_name'', first_name),
                         (''last_name'', last_name),
                         (''email'', VStr (lower e)),
                         (''phone'', phone),
                         (''password_hash'', VStr (generate_password_hash lib pw)),
                         (''role'', VStr role),
                         (''created_at'', VDatetime now),
                         (''updated_at'', VDatetime now)]
                      in (Inr (to_str_id (Some (put ''_id'' (VObjectId new_id) user_doc))),
                          insert_one users user_doc new_id))
                 | _ \<Rightarrow> (Inl AttributeError, users)))
      | _ \<Rightarrow> (Inl AttributeError, users))"

text \<open>\<^verbatim>\<open>create_token\<close> of \<^verbatim>\<open>routes/auth_routes.py\<close>, with its seven days.\<close>

definition create_token :: "library \<Rightarrow> datetime \<Rightarrow> doc \<Rightarrow> exn + string" where
  "create_token lib now user =
     (case index user ''_id'' of
        Inl e \<Rightarrow> Inl e
      | Inr i \<Rightarrow>
          (case index user ''email'' of
             Inl e \<Rightarrow> Inl e
           | Inr em \<Rightarrow>
               Inr (jwt_encode lib
                 [(''user_id'', VStr (py_str i)),
                  (''email'', em),
                  (''role'', get_default user ''role'' (VStr ''citizen'')),
                  (''exp'', VDatetime (add_days lib now 7)),
                  (''iat'', VDatetime now)])))"

text \<open>
  \<^verbatim>\<open>handle_registration\<close> of \<^verbatim>\<open>routes/auth_routes.py\<close>, which the three
  register routes call with their role.
\<close>

definition registration_fields :: "string list" where
  "registration_fields = [''first_name'', ''last_name'', ''email'', ''phone'', ''password'']"

definition handle_registration ::
  "library \<Rightarrow> collection \<Rightarrow> datetime \<Rightarrow> string \<Rightarrow> doc \<Rightarrow> string \<Rightarrow> response \<times> collection" where
  "handle_registration lib users now new_id data role =
     (let missing = filter (\<lambda>f. \<not> has_key f data \<or> \<not> truthy (get data f)) registration_fields
      in if missing \<noteq> []
         then (Response 400 (VDict [(''error'', VStr ''Missing required fields''),
                                    (''fields'', VList (map VStr missing))]), users)
         else (case create_user lib users now new_id (get data ''first_name'')
                     (get data ''last_name'') (get data ''email'') (get data ''phone'')
                     (get data ''password'') role of
                 (Inl e, users') \<Rightarrow> (Unhandled e, users')
               | (Inr None, users') \<Rightarrow> (Unhandled TypeError, users')
               | (Inr (Some user), users') \<Rightarrow>
                   (if has_key ''error'' user
                    then (case jsonify 400 (VDict user) of
                            Inl e \<Rightarrow> (Unhandled e, users')
                          | Inr r \<Rightarrow> (r, users'))
                    else (let user1 = pop ''password_hash'' user in
                          case create_token lib now user1 of
                            Inl e \<Rightarrow> (Unhandled e, users')
                          | Inr token \<Rightarrow>
                              (case jsonify 201 (VDict
                                     [(''message'',
                                         VStr (capitalize role @ '' registered successfully'')),
                                      (''user'', VDict user1),
                                      (''token'', VStr token)]) of
                                 Inl e \<Rightarrow> (Unhandled e, users')
                               | Inr r \<Rightarrow> (r, users'))))))"

text \<open>
  \<^verbatim>\<open>create_user\<close> of \<^verbatim>\<open>routes/admin_routes.py\<close> (POST /api/admin/users): the
  email is stored as posted, and no stored user is looked up before the insert.
\<close>

definition admin_routes_create_user ::
  "library \<Rightarrow> jwt_decode \<Rightarrow> collection \<Rightarrow> request \<Rightarrow> datetime \<Rightarrow> string
     \<Rightarrow> response \<times> collection" where
  "admin_routes_create_user lib decode users req now new_id =
     (let admin = require_admin decode req in
      if \<not> truthy (opt_val admin) then (Response 401 (err ''Unauthorized''), users)
      else
        (let data = get_json_or_empty req in
         if \<not> list_all (\<lambda>f. has_key f data \<and> truthy (get data f)) [''email'', ''role'']
         then (Response 400 (err ''Missing required fields''), users)
         else
           (let new_user =
              [(''first_name'', get_default data ''first_name'' (VStr [])),
               (''last_name'', get_default data ''last_name'' (VStr [])),
               (''email'', get data ''email''),
               (''role'', get_default data ''role'' (VStr ''citizen'')),
               (''badge_number'', get_default data ''badge_number'' (VStr [])),
               (''department'', get_default data ''department'' (VStr [])),
               (''created_at'', VDatetime now),
               (''last_login'', VNone)]
            in if \<not> truthy (get data ''password'')
               then (Response 400 (err ''Password is required when creating a user''), users)
               else (case get data ''password'' of
                       VStr pw \<Rightarrow>
                         (let new_user1 = put ''password_hash''
                                (VStr (generate_password_hash lib pw)) new_user;
                              users' = insert_one users new_user1 new_id;
                              new_user2 = pop ''password_hash''
                                (put ''_id'' (VStr new_id) new_user1)
                          in case jsonify 201 (VDict
                                   [(''message'', VStr ''User created successfully''),
                                    (''user'', opt_val (serialize_doc (Some new_user2)))]) of
                               Inl e \<Rightarrow> (Unhandled e, users')
                             | Inr r \<Rightarrow> (r, users'))
                     | _ \<Rightarrow> (Unhandled AttributeError, users)))))"

text \<open>
  A query value that is a dict whose first field name starts with a dollar sign is read
  by MongoDB as an operator document, not compared for equality. Only \<^verbatim>\<open>login\<close>
  passes posted values into a query unchanged.
\<close>

definition operator_doc :: "val \<Rightarrow> bool" where
  "operator_doc v = (case v of VDict ((k, w) # d) \<Rightarrow> take 1 k = ''$'' | _ \<Rightarrow> False)"

definition find_one_posted :: "library \<Rightarrow> collection \<Rightarrow> doc \<Rightarrow> doc option" where
  "find_one_posted lib col query =
     (if list_ex (\<lambda>kq. operator_doc (snd kq)) query then find_with_operators lib col query
      else find_one col query)"

text \<open>
  \<^verbatim>\<open>login\<close> of \<^verbatim>\<open>routes/auth_routes.py\<close> (POST /api/login): the query is on the
  email as posted.
\<close>

definition login :: "library \<Rightarrow> collection \<Rightarrow> request \<Rightarrow> datetime \<Rightarrow> response" where
  "login lib users req now =
     (let data = get_json_or_empty req;
          email = get data ''email'';
          password = get data ''password'';
          role = get data ''role''
      in if \<not> truthy email \<or> \<not> truthy password \<or> \<not> truthy role
         then Response 400 (err ''Email, password, and role are required'')
         else (case find_one_posted lib users [(''email'', email), (''role'', role)] of
                 None \<Rightarrow> Response 404 (err (''No '' @ py_str role @ '' account found for this email''))
               | Some user \<Rightarrow>
                   (if user = []
                    then Response 404 (err (''No '' @ py_str role @ '' account found for this email''))
                    else (case index user ''password_hash'' of
                            Inl e \<Rightarrow> Unhandled e
                          | Inr h \<Rightarrow>
                             (case (h, password) of
                                (VStr hash, VStr pw) \<Rightarrow>
                                  (if \<not> check_password_hash lib hash pw
                                   then Response 401 (err ''Invalid password'')
                                   else (case index user ''_id'' of
                                           Inl e \<Rightarrow> Unhandled e
                                         | Inr i \<Rightarrow>
                                            (let user1 = pop ''password_hash''
                                                   (put ''_id'' (VStr (py_str i)) user)
                                             in case create_token lib now user1 of
                                                  Inl e \<Rightarrow> Unhandled e
                                                | Inr token \<Rightarrow>
                                                   (case role of
                                                      VStr r \<Rightarrow>
                                                        (case jsonify 200 (VDict
                                                           [(''message'',
                                                               VStr (capitalize r @ '' login successful'')),
                                                            (''user'', VDict user1),
                                                            (''token'', VStr token)]) of
                                                           Inl e \<Rightarrow> Unhandled e
                                                         | Inr resp \<Rightarrow> resp)
                                                    | _ \<Rightarrow> Unhandled AttributeError))))
                              | _ \<Rightarrow> Unhandled TypeError)))))"




section \<open>Evidence upload\<close>

text \<open>
  \<^verbatim>\<open>str.strip()\<close>: white space removed at both ends, where white space is
  what \<^verbatim>\<open>str.isspace\<close> accepts among the code points below 256.
\<close>

definition is_whitespace :: "char \<Rightarrow> bool" where
  "is_whitespace c =
     (c \<in> set [CHR 0x09, CHR 0x0A, CHR 0x0B, CHR 0x0C, CHR 0x0D, CHR 0x1C, CHR 0x1D, CHR 0x1E,
               CHR 0x1F, CHR 0x20, CHR 0x85, CHR 0xA0])"

definition strip :: "string \<Rightarrow> string" where
  "strip s = rev (dropWhile is_whitespace (rev (dropWhile is_whitespace s)))"

text \<open>
  The stores behind the handler, outside the repository: whether GridFS was set up at
  import time, what \<^verbatim>\<open>fs.put\<close> and \<^verbatim>\<open>evidence_col.insert_one\<close> do for the file
  at a position of the batch (the message of the exception raised, or the id generated),
  and Werkzeug's \<^verbatim>\<open>secure_filename\<close>.
\<close>

record storage =
  fs_available :: bool
  fs_put :: "nat \<Rightarrow> upload \<Rightarrow> string + string"
  evidence_insert :: "nat \<Rightarrow> string + string"
  secure_filename :: "string \<Rightarrow> string"

text \<open>
  What the loop of \<^verbatim>\<open>upload_evidence\<close> builds: the two lists of the response, and
  the blobs and the metadata documents written so far.
\<close>

record upload_state =
  uploaded_files :: "val list"
  errors :: "val list"
  blobs :: "(string \<times> upload) list"
  evidence :: collection

definition max_file_size :: nat where
  "max_file_size = 10 * 1024 * 1024"

text \<open>\<^verbatim>\<open>ObjectId(x) if x else None\<close> of a form field.\<close>

definition ObjectId_if :: "string \<Rightarrow> exn + val" where
  "ObjectId_if x = (if x \<noteq> [] then ObjectId x else Inr VNone)"

definition add_error :: "string \<Rightarrow> string \<Rightarrow> upload_state \<Rightarrow> upload_state" where
  "add_error name msg s = s\<lparr>errors := errors s @ [VStr (name @ '': '' @ msg)]\<rparr>"

text \<open>
  The body of the loop for the file at position \<open>n\<close>: a part without a file name is
  skipped; every failure of a named file appends to \<^verbatim>\<open>errors\<close> and goes on to the
  next file. \<open>write_metadata\<close> is the part of the body after \<^verbatim>\<open>fs.put\<close>.
\<close>

definition write_metadata ::
  "storage \<Rightarrow> doc \<Rightarrow> val \<Rightarrow> string \<Rightarrow> string \<Rightarrow> string \<Rightarrow> datetime \<Rightarrow> nat \<Rightarrow> upload
     \<Rightarrow> string \<Rightarrow> upload_state \<Rightarrow> upload_state" where
  "write_metadata st payload officer_id case_id fir_id notes now n file file_id s1 =
     (case ObjectId_if case_id of
        Inl e \<Rightarrow> add_error (filename file) (exn_str e) s1
      | Inr cid \<Rightarrow>
         (case ObjectId_if fir_id of
            Inl e \<Rightarrow> add_error (filename file) (exn_str e) s1
          | Inr fid \<Rightarrow>
             (let evidence_doc =
                [(''file_id'', VObjectId file_id),
                 (''filename'', VStr (secure_filename st (filename file))),
                 (''original_filename'', VStr (filename file)),
                 (''content_type'',
                    VStr (if content_type file \<noteq> [] then content_type file
                          else ''application/octet-stream'')),
                 (''file_size'', VInt (int (file_size file))),
                 (''case_id'', cid),
                 (''fir_id'', fid),
                 (''officer_id'', officer_id),
                 (''officer_name'', get_default payload ''name'' (VStr [])),
                 (''notes'', VStr notes),
                 (''uploaded_at'', VDatetime now),
                 (''status'', VStr ''active'')]
              in case evidence_insert st n of
                   Inl msg \<Rightarrow> add_error (filename file) msg s1
                 | Inr evidence_id \<Rightarrow>
                    s1\<lparr>evidence := insert_one (evidence s1) evidence_doc evidence_id,
                       uploaded_files := uploaded_files s1 @
                         [VDict [(''evidence_id'', VStr evidence_id),
                                 (''file_id'', VStr file_id),
                                 (''filename'', VStr (filename file)),
                                 (''size'', VInt (int (file_size file)))]]\<rparr>)))"

definition upload_one ::
  "storage \<Rightarrow> doc \<Rightarrow> val \<Rightarrow> string \<Rightarrow> string \<Rightarrow> string \<Rightarrow> datetime \<Rightarrow> nat \<Rightarrow> upload
     \<Rightarrow> upload_state \<Rightarrow> upload_state" where
  "upload_one st payload officer_id case_id fir_id notes now n file s =
     (if filename file = [] then s
      else if file_size file > max_file_size
      then add_error (filename file) ''File too large (max 10MB)'' s
      else if \<not> fs_available st
      then add_error (filename file) ''File storage not available'' s
      else (case fs_put st n file of
              Inl msg \<Rightarrow> add_error (filename file) msg s
            | Inr file_id \<Rightarrow>
                write_metadata st payload officer_id case_id fir_id notes now n file file_id
                  (s\<lparr>blobs := blobs s @ [(file_id, file)]\<rparr>)))"

fun upload_all ::
  "storage \<Rightarrow> doc \<Rightarrow> val \<Rightarrow> string \<Rightarrow> string \<Rightarrow> string \<Rightarrow> datetime \<Rightarrow> nat \<Rightarrow> upload list
     \<Rightarrow> upload_state \<Rightarrow> upload_state" where
  "upload_all st payload officer_id case_id fir_id notes now n [] s = s"
| "upload_all st payload officer_id case_id fir_id notes now n (file # rest) s =
     upload_all st payload officer_id case_id fir_id notes now (Suc n) rest
       (upload_one st payload officer_id case_id fir_id notes now n file s)"

text \<open>
  The checks of \<^verbatim>\<open>upload_evidence\<close> before the loop: the response that ends the
  request, or nothing.
\<close>

definition form_field :: "request \<Rightarrow> string \<Rightarrow> string" where
  "form_field req name = strip (case map_of (form req) name of None \<Rightarrow> [] | Some v \<Rightarrow> v)"

definition check_case :: "collection \<Rightarrow> string \<Rightarrow> response option" where
  "check_case cases case_id =
     (if case_id = [] then None
      else (case ObjectId case_id of
              Inl e \<Rightarrow> Some (Response 400 (err ''Invalid case ID''))
            | Inr oid \<Rightarrow>
                (if \<not> truthy (opt_val (find_one cases [(''_id'', oid)]))
                 then Some (Response 404 (err ''Case not found''))
                 else None)))"

definition check_fir :: "collection \<Rightarrow> val \<Rightarrow> string \<Rightarrow> response option" where
  "check_fir firs officer_id fir_id =
     (if fir_id = [] then None
      else (case ObjectId fir_id of
              Inl e \<Rightarrow> Some (Response 400 (err ''Invalid FIR ID''))
            | Inr oid \<Rightarrow>
                (let fir = find_one firs [(''_id'', oid)] in
                 if \<not> truthy (opt_val fir) then Some (Response 404 (err ''FIR not found''))
                 else if \<not> py_eq (get (the fir) ''officer_id'') officer_id
                 then Some (Response 403 (err ''Access denied''))
                 else None)))"

text \<open>
  \<^verbatim>\<open>upload_evidence\<close> of \<^verbatim>\<open>routes/officer_routes.py\<close> (POST
  /api/officer/evidence): the response, and the blobs and metadata documents written. The
  bodies hold strings, integers and \<^verbatim>\<open>None\<close> only, which \<^verbatim>\<open>jsonify\<close>
  serializes.
\<close>

definition upload_response :: "upload_state \<Rightarrow> response" where
  "upload_response s =
     (if uploaded_files s = []
      then Response 400 (VDict [(''error'', VStr ''No files uploaded''),
                                (''errors'', VList (errors s))])
      else Response 201 (VDict
             [(''message'', VStr (''Successfully uploaded '' @
                                    decimal (length (uploaded_files s)) @ '' file(s)'')),
              (''uploaded_files'', VList (uploaded_files s)),
              (''errors'', (if errors s \<noteq> [] then VList (errors s) else VNone))]))"

definition upload_evidence ::
  "jwt_decode \<Rightarrow> storage \<Rightarrow> collection \<Rightarrow> collection \<Rightarrow> request \<Rightarrow> datetime
     \<Rightarrow> response \<times> upload_state" where
  "upload_evidence decode st cases firs req now =
     (let s0 = \<lparr>uploaded_files = [], errors = [], blobs = [], evidence = []\<rparr>;
          payload = verify_token decode req
      in if \<not> truthy (opt_val payload) then (Response 401 (err ''Unauthorized''), s0)
         else
           (let officer_id = get (the payload) ''user_id'' in
            if \<not> truthy officer_id then (Response 400 (err ''Invalid token''), s0)
            else
              (let case_id = form_field req ''case_id'';
                   fir_id = form_field req ''fir_id'';
                   notes = form_field req ''notes''
               in if case_id = [] \<and> fir_id = []
                  then (Response 400 (err ''Either case_id or fir_id is required''), s0)
                  else if files req = []
                  then (Response 400 (err ''No files provided''), s0)
                  else (case check_case cases case_id of
                          Some r \<Rightarrow> (r, s0)
                        | None \<Rightarrow>
                           (case check_fir firs officer_id fir_id of
                              Some r \<Rightarrow> (r, s0)
                            | None \<Rightarrow>
                               (let s = upload_all st (the payload) officer_id case_id fir_id
                                          notes now 0 (files req) s0
                                in (upload_response s, s)))))))"

text \<open>A file of the batch that carries a name, and one that is over the limit.\<close>

definition named :: "upload \<Rightarrow> bool" where
  "named file = (filename file \<noteq> [])"

definition oversized :: "upload \<Rightarrow> bool" where
  "oversized file = (file_size file > max_file_size)"

text \<open>The file at position \<open>n\<close> is stored without an exception.\<close>

definition stores :: "storage \<Rightarrow> nat \<Rightarrow> upload \<Rightarrow> bool" where
  "stores st n file =
     (fs_available st \<and> (case fs_put st n file of Inl msg \<Rightarrow> False | Inr i \<Rightarrow> True) \<and>
      (case evidence_insert st n of Inl msg \<Rightarrow> False | Inr i \<Rightarrow> True))"

text \<open>
  Every file of the batch, from position \<open>n\<close> on, carries a name and is either over the
  limit or stored without an exception.
\<close>

fun all_store :: "storage \<Rightarrow> nat \<Rightarrow> upload list \<Rightarrow> bool" where
  "all_store st n [] = True"
| "all_store st n (file # rest) =
     (named file \<and> (oversized file \<or> stores st n file) \<and> all_store st (Suc n) rest)"

text \<open>The request passes every check that \<^verbatim>\<open>upload_evidence\<close> makes before its loop.\<close>

definition accepted :: "jwt_decode \<Rightarrow> collection \<Rightarrow> collection \<Rightarrow> request \<Rightarrow> bool" where
  "accepted decode cases firs req =
     (case verify_token decode req of
        None \<Rightarrow> False
      | Some payload \<Rightarrow>
          payload \<noteq> [] \<and> truthy (get payload ''user_id'') \<and>
          (form_field req ''case_id'' \<noteq> [] \<or> form_field req ''fir_id'' \<noteq> []) \<and>
          files req \<noteq> [] \<and>
          check_case cases (form_field req ''case_id'') = None \<and>
          check_fir firs (get payload ''user_id'') (form_field req ''fir_id'') = None)"

text \<open>The state before the loop.\<close>

definition no_uploads :: upload_state where
  "no_uploads = \<lparr>uploaded_files = [], errors = [], blobs = [], evidence = []\<rparr>"

section \<open>Example requests\<close>

text \<open>A decoder for the examples: a token string for each outcome and role.\<close>

definition example_decode :: jwt_decode where
  "example_decode t =
     (if t = ''expired'' then Inl ExpiredSignatureError
      else if t = ''forged'' then Inl InvalidSignatureError
      else if t = ''citizen'' then
        Inr [(''user_id'', VStr ''65a1b2c3d4e5f60718293a4b''), (''email'', VStr ''c@x.com''),
             (''role'', VStr ''citizen'')]
      else if t = ''admin'' then
        Inr [(''user_id'', VStr ''65a1b2c3d4e5f60718293a4c''), (''email'', VStr ''root@x.com''),
             (''role'', VStr ''admin'')]
      else if t = ''officer1'' then
        Inr [(''user_id'', VStr ''65a1b2c3d4e5f60718293a4e''), (''email'', VStr ''o1@x.com''),
             (''role'', VStr ''officer'')]
      else if t = ''officer2'' then
        Inr [(''user_id'', VStr ''65a1b2c3d4e5f60718293a4f''), (''email'', VStr ''o2@x.com''),
             (''role'', VStr ''officer'')]
      else Inl DecodeError)"

definition bearer :: "string \<Rightarrow> request" where
  "bearer t = \<lparr>headers = [(''Authorization'', ''Bearer '' @ t)], json = None, form = [], files = []\<rparr>"


definition example_users :: collection where
  "example_users =
     [[(''_id'', VObjectId ''65a1b2c3d4e5f60718293a4b''), (''email'', VStr ''c@x.com''),
       (''password_hash'', VStr ''h''), (''role'', VStr ''citizen'')],
      [(''_id'', VObjectId ''65a1b2c3d4e5f60718293a4c''), (''email'', VStr ''root@x.com''),
       (''password_hash'', VStr ''h''), (''role'', VStr ''admin'')],
      [(''_id'', VObjectId ''65a1b2c3d4e5f60718293a4e''), (''email'', VStr ''o1@x.com''),
       (''name'', VStr ''Officer One''), (''password_hash'', VStr ''h''),
       (''role'', VStr ''officer'')],
      [(''_id'', VObjectId ''65a1b2c3d4e5f60718293a4f''), (''email'', VStr ''o2@x.com''),
       (''name'', VStr ''Officer Two''), (''password_hash'', VStr ''h''),
       (''role'', VStr ''officer'')]]"

definition example_cases :: collection where
  "example_cases =
     [[(''_id'', VObjectId ''65a1b2c3d4e5f60718293a5a''),
       (''citizen_id'', VObjectId ''65a1b2c3d4e5f60718293a4d''),
       (''title'', VStr ''Stolen bicycle''), (''status'', VStr ''Pending'')]]"

definition fir_request :: request where
  "fir_request =
     \<lparr>headers = [(''Authorization'', ''Bearer officer1'')],
      json = Some [(''title'', JStr ''Burglary''), (''category'', JStr ''Theft''),
                   (''complainant_name'', JStr ''R. Rao''), (''contact'', JStr ''555-0101''),
                   (''location'', JStr ''MG Road''), (''description'', JStr ''Shop broken into'')],
      form = [], files = []\<rparr>"

definition example_fir :: doc where
  "example_fir =
     [(''title'', VStr ''Burglary''), (''category'', VStr ''Theft''),
      (''complainant_name'', VStr ''R. Rao''), (''contact'', VStr ''555-0101''),
      (''location'', VStr ''MG Road''), (''description'', VStr ''Shop broken into''),
      (''officer_id'', VStr ''65a1b2c3d4e5f60718293a4e''),
      (''officer_name'', VStr ''Officer One''),
      (''status'', VStr ''Pending''), (''priority'', VStr ''Normal''),
      (''created_at'', VDatetime (Datetime 2024 5 6 7 8 9 0)),
      (''updated_at'', VDatetime (Datetime 2024 5 6 7 8 9 0)),
      (''_id'', VObjectId ''65a1b2c3d4e5f60718293a6a'')]"


text \<open>
  A library for the examples: a hash that can be checked, a token that names its subject,
  and days added within the month.
\<close>

definition example_library :: library where
  "example_library =
     \<lparr>generate_password_hash = (\<lambda>pw. ''pbkdf2:'' @ pw),
      check_password_hash = (\<lambda>h pw. h = ''pbkdf2:'' @ pw),
      jwt_encode = (\<lambda>payload. ''jwt:'' @ py_str (get payload ''user_id'')),
      add_days = (\<lambda>t n. Datetime (dt_year t) (dt_month t) (dt_day t + n) (dt_hour t)
                           (dt_minute t) (dt_second t) (dt_microsecond t)),
      find_with_operators = (\<lambda>col query. None)\<rparr>"

definition registration_data :: "string \<Rightarrow> doc" where
  "registration_data email =
     [(''first_name'', VStr ''Asha''), (''last_name'', VStr ''Rao''), (''email'', VStr email),
      (''phone'', VStr ''555-0100''), (''password'', VStr ''p1'')]"

definition registered_user :: "string \<Rightarrow> string \<Rightarrow> doc" where
  "registered_user email oid =
     [(''first_name'', VStr ''Asha''), (''last_name'', VStr ''Rao''), (''email'', VStr email),
      (''phone'', VStr ''555-0100''), (''password_hash'', VStr ''pbkdf2:p1''),
      (''role'', VStr ''citizen''),
      (''created_at'', VDatetime (Datetime 2024 5 6 7 8 9 0)),
      (''updated_at'', VDatetime (Datetime 2024 5 6 7 8 9 0)),
      (''_id'', VObjectId oid)]"

definition admin_create_request :: "string \<Rightarrow> request" where
  "admin_create_request email =
     \<lparr>headers = [(''Authorization'', ''Bearer admin'')],
      json = Some [(''email'', JStr email), (''role'', JStr ''citizen''),
                   (''password'', JStr ''p2'')],
      form = [], files = []\<rparr>"

definition admin_create_request_with :: "string \<Rightarrow> string \<Rightarrow> request" where
  "admin_create_request_with email pw =
     \<lparr>headers = [(''Authorization'', ''Bearer admin'')],
      json = Some [(''email'', JStr email), (''role'', JStr ''citizen''),
                   (''password'', JStr pw)],
      form = [], files = []\<rparr>"

definition registration_request :: "string \<Rightarrow> request" where
  "registration_request email =
     \<lparr>headers = [],
      json = Some [(''first_name'', JStr ''Asha''), (''last_name'', JStr ''Rao''),
                   (''email'', JStr email), (''phone'', JStr ''555-0100''),
                   (''password'', JStr ''p1'')],
      form = [], files = []\<rparr>"

definition admin_created_user :: "string \<Rightarrow> string \<Rightarrow> doc" where
  "admin_created_user email oid =
     [(''first_name'', VStr []), (''last_name'', VStr []), (''email'', VStr email),
      (''role'', VStr ''citizen''), (''badge_number'', VStr []), (''department'', VStr []),
      (''created_at'', VDatetime (Datetime 2024 5 6 7 8 9 0)), (''last_login'', VNone),
      (''password_hash'', VStr ''pbkdf2:p1''), (''_id'', VObjectId oid)]"

definition login_request :: "string \<Rightarrow> string \<Rightarrow> string \<Rightarrow> request" where
  "login_request email pw role =
     \<lparr>headers = [],
      json = Some [(''email'', JStr email), (''password'', JStr pw), (''role'', JStr role)],
      form = [], files = []\<rparr>"

text \<open>
  A storage that accepts every file, and a batch of three files for the FIR of the first
  officer; the second file is one byte over the limit.
\<close>

definition example_storage :: storage where
  "example_storage =
     \<lparr>fs_available = True,
      fs_put = (\<lambda>n f. Inr (''66aa0000000000000000000'' @ decimal n)),
      evidence_insert = (\<lambda>n. Inr (''66bb0000000000000000000'' @ decimal n)),
      secure_filename = (\<lambda>name. name)\<rparr>"

definition example_batch :: "upload list" where
  "example_batch =
     [\<lparr>filename = ''scene.jpg'', content_type = ''image/jpeg'', file_size = 52000\<rparr>,
      \<lparr>filename = ''cctv.mp4'', content_type = ''video/mp4'', file_size = 10485761\<rparr>,
      \<lparr>filename = ''statement.pdf'', content_type = [], file_size = 2048\<rparr>]"

definition evidence_request :: request where
  "evidence_request =
     \<lparr>headers = [(''Authorization'', ''Bearer officer1'')], json = None,
      form = [(''fir_id'', '' 65a1b2c3d4e5f60718293a6a ''), (''notes'', ''first visit'')],
      files = example_batch\<rparr>"

text \<open>
  The same batch, its oversized part sent without a file name.
\<close>

definition unnamed_batch :: "upload list" where
  "unnamed_batch =
     [\<lparr>filename = ''scene.jpg'', content_type = ''image/jpeg'', file_size = 52000\<rparr>,
      \<lparr>filename = [], content_type = ''video/mp4'', file_size = 10485761\<rparr>,
      \<lparr>filename = ''statement.pdf'', content_type = [], file_size = 2048\<rparr>]"

definition unnamed_request :: request where
  "unnamed_request =
     \<lparr>headers = [(''Authorization'', ''Bearer officer1'')], json = None,
      form = [(''fir_id'', '' 65a1b2c3d4e5f60718293a6a ''), (''notes'', ''first visit'')],
      files = unnamed_batch\<rparr>"

section \<open>The sanitizers: what they remove, and applying them twice\<close>

lemma has_key_pop [simp]: "\<not> has_key k (pop k d)"
  by (auto simp: has_key_def pop_def)

lemma has_key_map_values [simp]:
  "has_key k (map (\<lambda>(k, v). (k, f v)) d) = has_key k d"
  by (force simp: has_key_def)

lemma set_pop_subset: "kv \<in> set (pop k d) \<Longrightarrow> kv \<in> set d"
  by (simp add: pop_def)

lemma pop_map_values:
  "pop k (map (\<lambda>(k, v). (k, f v)) d) = map (\<lambda>(k, v). (k, f v)) (pop k d)"
  by (induction d) (auto simp: pop_def)

lemma pop_pop [simp]: "pop k (pop k d) = pop k d"
  by (simp add: pop_def)

lemma map_values_fixed:
  "(map (\<lambda>(k, v). (k, f v)) (map (\<lambda>(k, v). (k, f v)) d) = map (\<lambda>(k, v). (k, f v)) d)
   = list_all (\<lambda>kv. f (f (snd kv)) = f (snd kv)) d"
  by (induction d) auto

lemma map_fixed: "(map f (map f xs) = map f xs) = list_all (\<lambda>x. f (f x) = f x) xs"
  by (induction xs) auto

lemma opt_val_eq_VDict [simp]: "(opt_val x = VDict d) = (x = Some d)"
  by (cases x) auto

lemma opt_val_inject [simp]: "(opt_val x = opt_val y) = (x = y)"
  by (cases x; cases y) auto

lemma serialize_value_opt_val [simp]:
  "serialize_value (opt_val x) = opt_val (serialize_doc x)"
  by (cases x) auto

lemma serialize_item_opt_val [simp]:
  "serialize_item (opt_val x) = opt_val (serialize_doc x)"
  by (cases x) auto

lemma to_str_id_value_opt_val [simp]:
  "to_str_id_value (opt_val x) = opt_val (to_str_id x)"
  by (cases x) auto

lemma to_str_id_item_opt_val [simp]:
  "to_str_id_item (opt_val x) = opt_val (to_str_id x)"
  by (cases x) auto






text \<open>
  A second pass of \<open>serialize_doc\<close> changes nothing exactly when the first pass
  emptied no dict.
\<close>

lemma serialize_twice:
  "(serialize_doc (serialize_doc d) = serialize_doc d) = keeps_field d"
  "(serialize_value (serialize_value v) = serialize_value v) = keeps_field_value v"
  "(serialize_item (serialize_item w) = serialize_item w) = keeps_field_item w"
proof (induction d and v and w rule: serialize_doc_serialize_value_serialize_item.induct)
  case (2 d)
  show ?case
  proof (cases "d = []")
    case True
    then show ?thesis by simp
  next
    case nonempty: False
    show ?thesis
    proof (cases "pop ''password_hash'' d = []")
      case True
      with nonempty show ?thesis by simp
    next
      case False
      let ?F = "\<lambda>(k, v). (k, serialize_value v)"
      let ?p = "pop ''password_hash'' d"
      have first: "serialize_doc (Some d) = Some (map ?F ?p)"
        using nonempty by simp
      have "map ?F ?p \<noteq> []"
        using False by simp
      then have second: "serialize_doc (Some (map ?F ?p)) = Some (map ?F (map ?F ?p))"
        by (simp add: pop_map_values del: map_map)
      have "(serialize_doc (serialize_doc (Some d)) = serialize_doc (Some d))
            = (map ?F (map ?F ?p) = map ?F ?p)"
        unfolding first second by (simp del: map_map)
      also have "\<dots> = list_all (\<lambda>kv. serialize_value (serialize_value (snd kv))
                                      = serialize_value (snd kv)) ?p"
        by (rule map_values_fixed)
      also have "\<dots> = list_all (\<lambda>kv. keeps_field_value (snd kv)) ?p"
        using 2 [OF nonempty] by (auto simp: list_all_iff)
      also have "\<dots> = keeps_field (Some d)"
        using nonempty False by simp
      finally show ?thesis .
    qed
  qed
next
  case (5 xs)
  then show ?case by (auto simp: map_fixed list_all_iff)
qed simp_all

lemma to_str_id_twice:
  "to_str_id (to_str_id d) = to_str_id d"
  "to_str_id_value (to_str_id_value v) = to_str_id_value v"
  "to_str_id_item (to_str_id_item w) = to_str_id_item w"
proof (induction d and v and w rule: to_str_id_to_str_id_value_to_str_id_item.induct)
  case (2 d)
  then show ?case by (auto simp: case_prod_beta)
qed simp_all

text \<open>
  Claim C9, as the code has it. \<open>serialize_doc\<close> is idempotent on exactly the
  documents in which every non-empty dict it visits has a field other than
  \<^verbatim>\<open>password_hash\<close>; in particular on every such document
  \<open>serialize_doc (serialize_doc d) = serialize_doc d\<close>. \<open>to_str_id\<close> is idempotent
  on every document.
\<close>

theorem sanitizers_idempotent:
  "(keeps_field d \<longrightarrow> serialize_doc (serialize_doc d) = serialize_doc d) \<and>
   (serialize_doc (serialize_doc d) = serialize_doc d \<longrightarrow> keeps_field d) \<and>
   to_str_id (to_str_id d) = to_str_id d"
  using serialize_twice(1) [of d] to_str_id_twice(1) [of d] by simp

theorem sanitizers_idempotent_witness:
  "keeps_field (Some
     [(''_id'', VObjectId ''65a1b2c3d4e5f60718293a4b''), (''password_hash'', VStr ''h''),
      (''created_at'', VDatetime (Datetime 2024 1 2 3 4 5 0)),
      (''tags'', VList [VDict [(''password_hash'', VStr ''h''), (''x'', VInt 1)], VDict []])]) \<and>
   serialize_doc (serialize_doc (Some
     [(''_id'', VObjectId ''65a1b2c3d4e5f60718293a4b''), (''password_hash'', VStr ''h''),
      (''created_at'', VDatetime (Datetime 2024 1 2 3 4 5 0)),
      (''tags'', VList [VDict [(''password_hash'', VStr ''h''), (''x'', VInt 1)], VDict []])]))
   = serialize_doc (Some
     [(''_id'', VObjectId ''65a1b2c3d4e5f60718293a4b''), (''password_hash'', VStr ''h''),
      (''created_at'', VDatetime (Datetime 2024 1 2 3 4 5 0)),
      (''tags'', VList [VDict [(''password_hash'', VStr ''h''), (''x'', VInt 1)], VDict []])]) \<and>
   serialize_doc (Some
     [(''_id'', VObjectId ''65a1b2c3d4e5f60718293a4b''), (''password_hash'', VStr ''h''),
      (''created_at'', VDatetime (Datetime 2024 1 2 3 4 5 0)),
      (''tags'', VList [VDict [(''password_hash'', VStr ''h''), (''x'', VInt 1)], VDict []])])
   = Some
     [(''_id'', VStr ''65a1b2c3d4e5f60718293a4b''),
      (''created_at'', VStr ''2024-01-02T03:04:05''),
      (''tags'', VList [VDict [(''x'', VInt 1)], VNone])]"
proof -
  let ?d = "[(''_id'', VObjectId ''65a1b2c3d4e5f60718293a4b''), (''password_hash'', VStr ''h''),
      (''created_at'', VDatetime (Datetime 2024 1 2 3 4 5 0)),
      (''tags'', VList [VDict [(''password_hash'', VStr ''h''), (''x'', VInt 1)], VDict []])]"
  have keeps: "keeps_field (Some ?d)"
    by code_simp
  have out: "serialize_doc (Some ?d) = Some
     [(''_id'', VStr ''65a1b2c3d4e5f60718293a4b''),
      (''created_at'', VStr ''2024-01-02T03:04:05''),
      (''tags'', VList [VDict [(''x'', VInt 1)], VNone])]"
    by code_simp
  from sanitizers_idempotent [of "Some ?d"] keeps
  have "serialize_doc (serialize_doc (Some ?d)) = serialize_doc (Some ?d)"
    by blast
  with keeps out show ?thesis
    by blast
qed

text \<open>
  The claim as written fails on a document whose only field is the hash: the first pass
  returns the empty dict, the second pass \<^verbatim>\<open>None\<close>.
\<close>

theorem serialize_doc_not_idempotent:
  "serialize_doc (Some [(''password_hash'', VStr ''h'')]) = Some [] \<and>
   serialize_doc (serialize_doc (Some [(''password_hash'', VStr ''h'')])) = None"
  by code_simp

section \<open>Token verification: one failure value\<close>








section \<open>Admin endpoints: one status for every denial\<close>


lemma admin_required_eq: "admin_required decode req = require_admin decode req"
  by (simp add: admin_required_def require_admin_def)







lemma lower_case_header_token:
  "verify_token example_decode
     \<lparr>headers = [(''authorization'', ''Bearer admin'')], json = None, form = [], files = []\<rparr>
   = verify_token example_decode (bearer ''admin'')"
  by code_simp



section \<open>Reading cases\<close>

lemma find_all_citizen:
  "find_all cases [(''citizen_id'', cid)]
   = filter (\<lambda>c. field_matches (get c ''citizen_id'') cid) cases"
  by (simp add: find_all_def matches_def [abs_def])

text \<open>
  Claim C2, as the code has it. Reading a case checks no credentials: the answers of
  \<open>get_case\<close> and \<open>view_complaints\<close> do not depend on the request;
  \<open>get_case\<close> returns every stored case that serializes, with status 200, to whoever
  asks for its id; and \<open>view_complaints\<close> returns, with status 200, the cases whose
  \<^verbatim>\<open>citizen_id\<close> matches the id in the path, whoever asks.
\<close>

theorem get_case_checks_no_credentials:
  "get_case cases req case_id = get_case cases req' case_id \<and>
   view_complaints cases req citizen_id = view_complaints cases req' citizen_id \<and>
   (ObjectId case_id = Inr oid \<and> find_one cases [(''_id'', oid)] = Some c \<and> c \<noteq> [] \<and>
    json_safe (opt_val (to_str_id (Some c)))
    \<longrightarrow> get_case cases req case_id = Response 200 (opt_val (to_str_id (Some c)))) \<and>
   (ObjectId citizen_id = Inr cid \<and>
    json_safe (VList (map (\<lambda>c. opt_val (to_str_id (Some c)))
       (filter (\<lambda>c. field_matches (get c ''citizen_id'') cid) cases)))
    \<longrightarrow> view_complaints cases req citizen_id =
          Response 200 (VList (map (\<lambda>c. opt_val (to_str_id (Some c)))
            (filter (\<lambda>c. field_matches (get c ''citizen_id'') cid) cases))))"
  by (simp add: get_case_def view_complaints_def get_cases_by_citizen_def jsonify_def
        find_all_citizen del: json_safe.simps)

theorem get_case_checks_no_credentials_witness:
  "ObjectId ''65a1b2c3d4e5f60718293a5a'' = Inr (VObjectId ''65a1b2c3d4e5f60718293a5a'') \<and>
   find_one example_cases [(''_id'', VObjectId ''65a1b2c3d4e5f60718293a5a'')]
     = Some (hd example_cases) \<and>
   hd example_cases \<noteq> [] \<and>
   json_safe (opt_val (to_str_id (Some (hd example_cases)))) \<and>
   get_case example_cases (bearer ''citizen'') ''65a1b2c3d4e5f60718293a5a''
     = Response 200 (opt_val (to_str_id (Some (hd example_cases)))) \<and>
   view_complaints example_cases (bearer ''citizen'') ''65a1b2c3d4e5f60718293a4d''
     = Response 200 (VList (map (\<lambda>c. opt_val (to_str_id (Some c)))
         (filter (\<lambda>c. field_matches (get c ''citizen_id'')
                         (VObjectId ''65a1b2c3d4e5f60718293a4d'')) example_cases)))"
proof -
  have a: "ObjectId ''65a1b2c3d4e5f60718293a5a'' = Inr (VObjectId ''65a1b2c3d4e5f60718293a5a'')"
    by code_simp
  have b: "find_one example_cases [(''_id'', VObjectId ''65a1b2c3d4e5f60718293a5a'')]
     = Some (hd example_cases)"
    by code_simp
  have c: "hd example_cases \<noteq> []"
    by code_simp
  have d: "json_safe (opt_val (to_str_id (Some (hd example_cases))))"
    by code_simp
  have e: "ObjectId ''65a1b2c3d4e5f60718293a4d'' = Inr (VObjectId ''65a1b2c3d4e5f60718293a4d'')"
    by code_simp
  have f: "json_safe (VList (map (\<lambda>c. opt_val (to_str_id (Some c)))
       (filter (\<lambda>c. field_matches (get c ''citizen_id'')
                       (VObjectId ''65a1b2c3d4e5f60718293a4d'')) example_cases)))"
    by code_simp
  from get_case_checks_no_credentials
    [where case_id = "''65a1b2c3d4e5f60718293a5a''" and cases = example_cases
       and oid = "VObjectId ''65a1b2c3d4e5f60718293a5a''" and c = "hd example_cases"
       and req = "bearer ''citizen''" and citizen_id = "''65a1b2c3d4e5f60718293a4d''"
       and cid = "VObjectId ''65a1b2c3d4e5f60718293a4d''"] a b c d e f
  have "get_case example_cases (bearer ''citizen'') ''65a1b2c3d4e5f60718293a5a''
     = Response 200 (opt_val (to_str_id (Some (hd example_cases))))"
    and "view_complaints example_cases (bearer ''citizen'') ''65a1b2c3d4e5f60718293a4d''
     = Response 200 (VList (map (\<lambda>c. opt_val (to_str_id (Some c)))
         (filter (\<lambda>c. field_matches (get c ''citizen_id'')
                         (VObjectId ''65a1b2c3d4e5f60718293a4d'')) example_cases)))"
    by blast+
  with a b c d show ?thesis by blast
qed

text \<open>
  The claim as written fails: a citizen whose subject id ends in 4b reads, by id and
  through the listing of the owner, the case of the citizen whose id ends in 4d.
\<close>

theorem citizen_reads_another_citizens_case:
  "get (the (verify_token example_decode (bearer ''citizen''))) ''user_id''
     = VStr ''65a1b2c3d4e5f60718293a4b'' \<and>
   get (hd example_cases) ''citizen_id'' = VObjectId ''65a1b2c3d4e5f60718293a4d'' \<and>
   get_case example_cases (bearer ''citizen'') ''65a1b2c3d4e5f60718293a5a'' =
     Response 200 (VDict
       [(''_id'', VStr ''65a1b2c3d4e5f60718293a5a''),
        (''citizen_id'', VStr ''65a1b2c3d4e5f60718293a4d''),
        (''title'', VStr ''Stolen bicycle''), (''status'', VStr ''Pending'')]) \<and>
   view_complaints example_cases (bearer ''citizen'') ''65a1b2c3d4e5f60718293a4d'' =
     Response 200 (VList [VDict
       [(''_id'', VStr ''65a1b2c3d4e5f60718293a5a''),
        (''citizen_id'', VStr ''65a1b2c3d4e5f60718293a4d''),
        (''title'', VStr ''Stolen bicycle''), (''status'', VStr ''Pending'')]])"
  by code_simp

section \<open>Officer FIRs: defaults at creation, and ownership\<close>

text \<open>Values that came from a request body are stored as they are.\<close>

lemma bson_of_json [simp]: "bson (of_json j) = of_json j"
  by (induction j) (auto intro: map_idI)

lemma is_json_of_json [simp]: "is_json (of_json j)"
  by (induction j) (auto simp: list_all_iff)


lemma bson_is_json: "is_json v \<Longrightarrow> bson v = v"
  by (induction v) (auto simp: list_all_iff intro!: map_idI prod_eqI)

lemma body_is_json: "list_all (\<lambda>kv. is_json (snd kv)) (get_json_or_empty req)"
  by (auto simp: get_json_or_empty_def list_all_iff split: option.splits)


lemma get_default_is_json:
  "list_all (\<lambda>kv. is_json (snd kv)) d \<Longrightarrow> is_json dflt \<Longrightarrow> is_json (get_default d k dflt)"
  by (auto simp: get_default_def list_all_iff split: option.splits dest!: map_of_SomeD)

lemma get_bson_doc: "get (bson_doc d) k = bson (get d k)"
  by (induction d) (auto simp: get_def bson_doc_def)





lemma get_put_same [simp]: "get (put k v d) k = v"
  by (induction d) (auto simp: get_def)

lemma get_put_other [simp]: "k \<noteq> k' \<Longrightarrow> get (put k v d) k' = get d k'"
  by (induction d) (auto simp: get_def)











lemma get_Cons: "get ((k', v) # d) k = (if k' = k then v else get d k)"
  by (simp add: get_def)



lemma py_eq_VStr [simp]: "py_eq (VStr a) (VStr b) = (a = b)"
  by simp
























lemma create_officer_fir_stored:
  assumes "create_officer_fir decode users firs req now new_id = (Response 201 b, firs')"
  shows "\<exists>fir. firs' = firs @ [fir] \<and> get fir ''status'' = VStr ''Pending'' \<and>
          get fir ''priority'' = get_default (get_json_or_empty req) ''priority'' (VStr ''Normal'')"
proof -
  have pr: "bson (get_default (get_json_or_empty req) ''priority'' (VStr ''Normal''))
      = get_default (get_json_or_empty req) ''priority'' (VStr ''Normal'')"
    by (simp add: bson_is_json get_default_is_json body_is_json)
  show ?thesis
    using assms
    by (auto simp: create_officer_fir_def Let_def insert_one_def jsonify_def get_bson_doc
          get_Cons pr split: if_splits sum.splits simp del: json_safe.simps)
qed

lemma example_fir_created:
  "create_officer_fir example_decode example_users [] fir_request (Datetime 2024 5 6 7 8 9 0)
      ''65a1b2c3d4e5f60718293a6a''
   = (Response 201 (VDict [(''message'', VStr ''FIR created successfully''),
        (''fir'', VDict (put ''_id'' (VStr ''65a1b2c3d4e5f60718293a6a'') example_fir))]),
      [example_fir])"
  by code_simp

text \<open>
  Claim C6, as the code has it. Every FIR that \<open>create_officer_fir\<close> stores (the
  response is 201) is appended with status \<^verbatim>\<open>Pending\<close>, whatever the request says
  about a status, and with the priority field of the request, or \<^verbatim>\<open>Normal\<close> when the
  request has none.
\<close>

theorem create_officer_fir_defaults:
  "create_officer_fir decode users firs req now new_id = (Response 201 b, firs') \<Longrightarrow>
   \<exists>fir. firs' = firs @ [fir] \<and> get fir ''status'' = VStr ''Pending'' \<and>
     get fir ''priority'' = get_default (get_json_or_empty req) ''priority'' (VStr ''Normal'')"
  by (rule create_officer_fir_stored)

theorem create_officer_fir_defaults_witness:
  "create_officer_fir example_decode example_users [] fir_request (Datetime 2024 5 6 7 8 9 0)
      ''65a1b2c3d4e5f60718293a6a''
   = (Response 201 (VDict [(''message'', VStr ''FIR created successfully''),
        (''fir'', VDict (put ''_id'' (VStr ''65a1b2c3d4e5f60718293a6a'') example_fir))]),
      [example_fir]) \<and>
   (\<exists>fir. [example_fir] = [] @ [fir] \<and> get fir ''status'' = VStr ''Pending'' \<and>
     get fir ''priority'' = get_default (get_json_or_empty fir_request) ''priority'' (VStr ''Normal''))"
  using create_officer_fir_defaults [OF example_fir_created] example_fir_created
  by blast

text \<open>
  The claim as written fails: a request with neither a priority nor a status stores
  status \<^verbatim>\<open>Pending\<close> and priority \<^verbatim>\<open>Normal\<close>, not \<^verbatim>\<open>Open\<close> and
  \<^verbatim>\<open>High\<close>.
\<close>

theorem officer_fir_defaults_not_high_open:
  "map_of (get_json_or_empty fir_request) ''priority'' = None \<and>
   map_of (get_json_or_empty fir_request) ''status'' = None \<and>
   snd (create_officer_fir example_decode example_users [] fir_request
          (Datetime 2024 5 6 7 8 9 0) ''65a1b2c3d4e5f60718293a6a'') = [example_fir] \<and>
   get example_fir ''status'' = VStr ''Pending'' \<and>
   get example_fir ''priority'' = VStr ''Normal''"
  by code_simp



section \<open>Users: duplicate emails, and the case of the email at login\<close>

text \<open>
  Claim C7, evaluated on the code. After the registration of \<^verbatim>\<open>a@x.com\<close>, a second
  registration of the same address in other letter case is rejected with the
  duplicate-email error and the collection is unchanged; the admin creation of
  \<^verbatim>\<open>a@x.com\<close> answers 201 and leaves two users with that email.
\<close>

theorem admin_creation_duplicates_email:
  "handle_registration example_library [] (Datetime 2024 5 6 7 8 9 0)
      ''65a1b2c3d4e5f60718293a7a'' (registration_data ''a@x.com'') ''citizen''
   = (Response 201 (VDict
        [(''message'', VStr ''Citizen registered successfully''),
         (''user'', VDict
            [(''first_name'', VStr ''Asha''), (''last_name'', VStr ''Rao''),
             (''email'', VStr ''a@x.com''), (''phone'', VStr ''555-0100''),
             (''role'', VStr ''citizen''),
             (''created_at'', VDatetime (Datetime 2024 5 6 7 8 9 0)),
             (''updated_at'', VDatetime (Datetime 2024 5 6 7 8 9 0)),
             (''_id'', VStr ''65a1b2c3d4e5f60718293a7a'')]),
         (''token'', VStr ''jwt:65a1b2c3d4e5f60718293a7a'')]),
      [registered_user ''a@x.com'' ''65a1b2c3d4e5f60718293a7a'']) \<and>
   handle_registration example_library [registered_user ''a@x.com'' ''65a1b2c3d4e5f60718293a7a'']
      (Datetime 2024 5 6 7 8 9 0) ''65a1b2c3d4e5f60718293a7b'' (registration_data ''A@x.com'')
      ''citizen''
   = (Response 400 (VDict [(''error'', VStr ''Email already registered'')]),
      [registered_user ''a@x.com'' ''65a1b2c3d4e5f60718293a7a'']) \<and>
   fst (admin_routes_create_user example_library example_decode
      [registered_user ''a@x.com'' ''65a1b2c3d4e5f60718293a7a'']
      (admin_create_request ''a@x.com'') (Datetime 2024 5 6 7 8 9 0) ''65a1b2c3d4e5f60718293a7b'')
   = Response 201 (VDict
        [(''message'', VStr ''User created successfully''),
         (''user'', VDict
            [(''first_name'', VStr []), (''last_name'', VStr []),
             (''email'', VStr ''a@x.com''), (''role'', VStr ''citizen''),
             (''badge_number'', VStr []), (''department'', VStr []),
             (''created_at'', VStr ''2024-05-06T07:08:09''), (''last_login'', VNone),
             (''_id'', VStr ''65a1b2c3d4e5f60718293a7b'')])]) \<and>
   map (\<lambda>d. get d ''email'')
     (snd (admin_routes_create_user example_library example_decode
        [registered_user ''a@x.com'' ''65a1b2c3d4e5f60718293a7a'']
        (admin_create_request ''a@x.com'') (Datetime 2024 5 6 7 8 9 0)
        ''65a1b2c3d4e5f60718293a7b''))
   = [VStr ''a@x.com'', VStr ''a@x.com'']"
  by code_simp

theorem admin_creation_duplicates_email_witness:
  "map (\<lambda>d. get d ''email'')
     (snd (admin_routes_create_user example_library example_decode
        [registered_user ''a@x.com'' ''65a1b2c3d4e5f60718293a7a'']
        (admin_create_request ''a@x.com'') (Datetime 2024 5 6 7 8 9 0)
        ''65a1b2c3d4e5f60718293a7b''))
   = [VStr ''a@x.com'', VStr ''a@x.com'']"
  using admin_creation_duplicates_email by blast

























text \<open>
  The claim as written fails when the collection holds a user that the admin creation
  stored: its email is kept as posted. After the admin creation of \<^verbatim>\<open>Asha@X.com\<close>
  the registration of \<^verbatim>\<open>Asha@X.com\<close> still succeeds (it looks for the lower-cased
  email), and the login with that exact string, the same password and the same role
  answers 200.
\<close>

theorem exact_email_login_succeeds:
  "(\<exists>c \<in> set ''Asha@X.com''. is_upper c) \<and>
   snd (admin_routes_create_user example_library example_decode []
      (admin_create_request_with ''Asha@X.com'' ''p1'') (Datetime 2024 5 6 7 8 9 0)
      ''65a1b2c3d4e5f60718293a79'')
     = [admin_created_user ''Asha@X.com'' ''65a1b2c3d4e5f60718293a79''] \<and>
   handle_registration example_library
      [admin_created_user ''Asha@X.com'' ''65a1b2c3d4e5f60718293a79'']
      (Datetime 2024 5 6 7 8 9 0) ''65a1b2c3d4e5f60718293a7a''
      (get_json_or_empty (registration_request ''Asha@X.com'')) ''citizen''
     = (Response 201 (VDict
          [(''message'', VStr ''Citizen registered successfully''),
           (''user'', VDict
              [(''first_name'', VStr ''Asha''), (''last_name'', VStr ''Rao''),
               (''email'', VStr ''asha@x.com''), (''phone'', VStr ''555-0100''),
               (''role'', VStr ''citizen''),
               (''created_at'', VDatetime (Datetime 2024 5 6 7 8 9 0)),
               (''updated_at'', VDatetime (Datetime 2024 5 6 7 8 9 0)),
               (''_id'', VStr ''65a1b2c3d4e5f60718293a7a'')]),
           (''token'', VStr ''jwt:65a1b2c3d4e5f60718293a7a'')]),
        [admin_created_user ''Asha@X.com'' ''65a1b2c3d4e5f60718293a79'',
         registered_user ''asha@x.com'' ''65a1b2c3d4e5f60718293a7a'']) \<and>
   login example_library
      [admin_created_user ''Asha@X.com'' ''65a1b2c3d4e5f60718293a79'',
       registered_user ''asha@x.com'' ''65a1b2c3d4e5f60718293a7a'']
      (login_request ''Asha@X.com'' ''p1'' ''citizen'') (Datetime 2024 5 7 0 0 0 0)
     = Response 200 (VDict
         [(''message'', VStr ''Citizen login successful''),
          (''user'', VDict
             [(''first_name'', VStr []), (''last_name'', VStr []),
              (''email'', VStr ''Asha@X.com''), (''role'', VStr ''citizen''),
              (''badge_number'', VStr []), (''department'', VStr []),
              (''created_at'', VDatetime (Datetime 2024 5 6 7 8 9 0)),
              (''last_login'', VNone),
              (''_id'', VStr ''65a1b2c3d4e5f60718293a79'')]),
          (''token'', VStr ''jwt:65a1b2c3d4e5f60718293a79'')])"
  by code_simp

section \<open>Evidence upload: one entry for every named file\<close>

lemma add_error_fields [simp]:
  "errors (add_error name msg s) = errors s @ [VStr (name @ '': '' @ msg)]"
  "uploaded_files (add_error name msg s) = uploaded_files s"
  by (simp_all add: add_error_def)

lemma write_metadata_count:
  "length (uploaded_files (write_metadata st p oid c f nts now n file fid s))
     + length (errors (write_metadata st p oid c f nts now n file fid s))
   = Suc (length (uploaded_files s) + length (errors s))"
  by (simp add: write_metadata_def Let_def split: sum.splits)

lemma write_metadata_errors:
  "set (errors s) \<subseteq> set (errors (write_metadata st p oid c f nts now n file fid s))"
  by (auto simp: write_metadata_def Let_def split: sum.splits)

lemma upload_one_count:
  "length (uploaded_files (upload_one st p oid c f nts now n file s))
     + length (errors (upload_one st p oid c f nts now n file s))
   = length (uploaded_files s) + length (errors s) + (if named file then 1 else 0)"
  by (simp add: upload_one_def named_def write_metadata_count split: sum.splits)

lemma upload_one_errors:
  "set (errors s) \<subseteq> set (errors (upload_one st p oid c f nts now n file s))"
proof (cases "fs_put st n file")
  case (Inl msg)
  then show ?thesis by (auto simp: upload_one_def)
next
  case (Inr fid)
  from write_metadata_errors [where s = "s\<lparr>blobs := blobs s @ [(fid, file)]\<rparr>" and fid = fid]
  have "set (errors s)
      \<subseteq> set (errors (write_metadata st p oid c f nts now n file fid
                       (s\<lparr>blobs := blobs s @ [(fid, file)]\<rparr>)))"
    by simp
  with Inr show ?thesis by (auto simp: upload_one_def)
qed

lemma upload_one_oversized:
  "named file \<Longrightarrow> oversized file \<Longrightarrow>
   upload_one st p oid c f nts now n file s
     = add_error (filename file) ''File too large (max 10MB)'' s"
  by (simp add: upload_one_def named_def oversized_def)

lemma upload_one_stored:
  assumes "named file" and "\<not> oversized file" and "stores st n file"
    and "ObjectId_if c = Inr cid" and "ObjectId_if f = Inr fid"
  shows "length (uploaded_files (upload_one st p oid c f nts now n file s))
           = Suc (length (uploaded_files s)) \<and>
         errors (upload_one st p oid c f nts now n file s) = errors s"
  using assms
  by (auto simp: upload_one_def named_def oversized_def stores_def write_metadata_def Let_def
        split: sum.splits)

lemma upload_all_count:
  "length (uploaded_files (upload_all st p oid c f nts now n fs s))
     + length (errors (upload_all st p oid c f nts now n fs s))
   = length (uploaded_files s) + length (errors s) + length (filter named fs)"
  by (induction fs arbitrary: n s) (simp_all add: upload_one_count)

lemma upload_all_errors:
  "set (errors s) \<subseteq> set (errors (upload_all st p oid c f nts now n fs s))"
proof (induction fs arbitrary: n s)
  case Nil
  then show ?case by simp
next
  case (Cons a fs)
  have "set (errors s) \<subseteq> set (errors (upload_one st p oid c f nts now n a s))"
    by (rule upload_one_errors)
  also have "\<dots> \<subseteq> set (errors (upload_all st p oid c f nts now (Suc n) fs
                         (upload_one st p oid c f nts now n a s)))"
    by (rule Cons.IH)
  finally show ?case by simp
qed

lemma upload_all_oversized:
  "file \<in> set fs \<Longrightarrow> named file \<Longrightarrow> oversized file \<Longrightarrow>
   VStr (filename file @ '': File too large (max 10MB)'')
     \<in> set (errors (upload_all st p oid c f nts now n fs s))"
proof (induction fs arbitrary: n s)
  case Nil
  then show ?case by simp
next
  case (Cons a fs)
  show ?case
  proof (cases "file = a")
    case True
    with Cons.prems have "VStr (filename file @ '': File too large (max 10MB)'')
        \<in> set (errors (upload_one st p oid c f nts now n a s))"
      by (simp add: upload_one_oversized)
    moreover have "set (errors (upload_one st p oid c f nts now n a s))
        \<subseteq> set (errors (upload_all st p oid c f nts now (Suc n) fs
                         (upload_one st p oid c f nts now n a s)))"
      by (rule upload_all_errors)
    ultimately show ?thesis
      by auto
  next
    case False
    with Cons show ?thesis by simp
  qed
qed

lemma upload_all_exact:
  assumes "all_store st n fs" and "ObjectId_if c = Inr cid" and "ObjectId_if f = Inr fid"
  shows "errors (upload_all st p oid c f nts now n fs s)
           = errors s @ map (\<lambda>x. VStr (filename x @ '': File too large (max 10MB)''))
                          (filter oversized fs) \<and>
         length (uploaded_files (upload_all st p oid c f nts now n fs s))
           = length (uploaded_files s) + length (filter (\<lambda>x. \<not> oversized x) fs)"
  using assms(1)
proof (induction fs arbitrary: n s)
  case Nil
  then show ?case by simp
next
  case (Cons a fs)
  then have rest: "all_store st (Suc n) fs" and na: "named a" by simp_all
  show ?case
  proof (cases "oversized a")
    case True
    with na Cons.IH [OF rest] show ?thesis
      by (simp add: upload_one_oversized)
  next
    case False
    with Cons.prems have "stores st n a" by simp
    from upload_one_stored [OF na False this assms(2,3)] Cons.IH [OF rest] False
    show ?thesis by simp
  qed
qed

lemma check_case_None: "check_case cases c = None \<Longrightarrow> \<exists>cid. ObjectId_if c = Inr cid"
  by (auto simp: check_case_def ObjectId_if_def split: if_splits sum.splits)

lemma check_fir_None: "check_fir firs oid f = None \<Longrightarrow> \<exists>fid. ObjectId_if f = Inr fid"
  by (auto simp: check_fir_def ObjectId_if_def Let_def split: if_splits sum.splits)

lemma upload_response_status:
  "upload_response s =
     (if uploaded_files s = []
      then Response 400 (body (upload_response s))
      else Response 201 (body (upload_response s)))"
  by (simp add: upload_response_def)

lemma check_case_Some: "check_case cases c = Some r \<Longrightarrow> \<exists>code b. r = Response code b \<and> code \<noteq> 201"
  by (auto simp: check_case_def split: if_splits sum.splits)

lemma check_fir_Some: "check_fir firs oid f = Some r \<Longrightarrow> \<exists>code b. r = Response code b \<and> code \<noteq> 201"
  by (auto simp: check_fir_def Let_def split: if_splits sum.splits)

lemma upload_evidence_cases:
  "(\<exists>code b. upload_evidence decode st cases firs req now = (Response code b, no_uploads) \<and> code \<noteq> 201) \<or>
   (\<exists>s. upload_evidence decode st cases firs req now = (upload_response s, s))"
proof (cases "verify_token decode req")
  case None
  then show ?thesis by (simp add: upload_evidence_def no_uploads_def)
next
  case (Some p)
  show ?thesis
  proof (cases "check_case cases (form_field req ''case_id'')")
    case cnone: None
    show ?thesis
    proof (cases "check_fir firs (get p ''user_id'') (form_field req ''fir_id'')")
      case None
      with Some cnone show ?thesis
        by (simp add: upload_evidence_def no_uploads_def Let_def)
    next
      case (Some r)
      from check_fir_Some [OF this] obtain code b where "r = Response code b" "code \<noteq> 201"
        by blast
      with \<open>verify_token decode req = Some p\<close> cnone Some show ?thesis
        by (simp add: upload_evidence_def no_uploads_def Let_def)
    qed
  next
    case (Some r)
    from check_case_Some [OF this] obtain code b where "r = Response code b" "code \<noteq> 201"
      by blast
    with \<open>verify_token decode req = Some p\<close> Some show ?thesis
      by (simp add: upload_evidence_def no_uploads_def Let_def)
  qed
qed

lemma upload_evidence_accepted:
  assumes "accepted decode cases firs req"
  shows "\<exists>p cid fid. verify_token decode req = Some p \<and>
           ObjectId_if (form_field req ''case_id'') = Inr cid \<and>
           ObjectId_if (form_field req ''fir_id'') = Inr fid \<and>
           upload_evidence decode st cases firs req now =
             (upload_response
                (upload_all st p (get p ''user_id'') (form_field req ''case_id'')
                   (form_field req ''fir_id'') (form_field req ''notes'') now 0 (files req)
                   no_uploads),
              upload_all st p (get p ''user_id'') (form_field req ''case_id'')
                   (form_field req ''fir_id'') (form_field req ''notes'') now 0 (files req)
                   no_uploads)"
proof -
  from assms obtain p where p: "verify_token decode req = Some p" "p \<noteq> []"
    "truthy (get p ''user_id'')"
    "form_field req ''case_id'' \<noteq> [] \<or> form_field req ''fir_id'' \<noteq> []"
    "files req \<noteq> []"
    "check_case cases (form_field req ''case_id'') = None"
    "check_fir firs (get p ''user_id'') (form_field req ''fir_id'') = None"
    by (auto simp: accepted_def split: option.splits)
  from check_case_None [OF p(6)] obtain cid
    where "ObjectId_if (form_field req ''case_id'') = Inr cid" by blast
  moreover from check_fir_None [OF p(7)] obtain fid
    where "ObjectId_if (form_field req ''fir_id'') = Inr fid" by blast
  moreover have "upload_evidence decode st cases firs req now =
             (upload_response
                (upload_all st p (get p ''user_id'') (form_field req ''case_id'')
                   (form_field req ''fir_id'') (form_field req ''notes'') now 0 (files req)
                   no_uploads),
              upload_all st p (get p ''user_id'') (form_field req ''case_id'')
                   (form_field req ''fir_id'') (form_field req ''notes'') now 0 (files req)
                   no_uploads)"
  proof -
    from p(4) have "\<not> (form_field req ''case_id'' = [] \<and> form_field req ''fir_id'' = [])"
      by blast
    with p(1-3) p(5-7) show ?thesis
      by (cases "form_field req ''case_id'' = []")
        (simp_all add: upload_evidence_def Let_def no_uploads_def)
  qed
  ultimately show ?thesis using p(1) by blast
qed

lemma upload_evidence_status:
  assumes "upload_evidence decode st cases firs req now = (r, s)"
  shows "(uploaded_files s \<noteq> [] \<longrightarrow> (\<exists>b. r = Response 201 b)) \<and>
         ((\<exists>b. r = Response 400 b) \<longrightarrow> uploaded_files s = [])"
proof -
  from upload_evidence_cases [of decode st cases firs req now]
  consider (early) code b where
      "upload_evidence decode st cases firs req now = (Response code b, no_uploads)"
    | (loop) s' where "upload_evidence decode st cases firs req now = (upload_response s', s')"
    by blast
  then show ?thesis
  proof cases
    case early
    with assms have "s = no_uploads" by simp
    then show ?thesis by (simp add: no_uploads_def)
  next
    case loop
    with assms have "r = upload_response s" by auto
    then show ?thesis by (simp add: upload_response_def)
  qed
qed

text \<open>
  Claim C5, as the code has it. For every request, \<open>upload_evidence\<close> answers 201
  whenever a file was uploaded, and answers 400 only when none was. When the request
  passes the checks before the loop, the response is the partition built by the loop:
  every file that carries a name adds exactly one entry, to \<^verbatim>\<open>uploaded_files\<close> or
  to \<^verbatim>\<open>errors\<close>, and a part without a name adds none; every named file over 10 MiB
  has its entry in \<^verbatim>\<open>errors\<close>, whatever comes before or after it; and when every
  file carries a name and the files within the limit are stored without an exception,
  the errors are exactly the entries of the oversized files, in their order, and the
  uploads are as many as the other files, so that a batch of three with one oversized
  file gives one error, two uploads and status 201.
\<close>

theorem upload_evidence_partitions:
  assumes "upload_evidence decode st cases firs req now = (r, s)"
  shows "(uploaded_files s \<noteq> [] \<longrightarrow> (\<exists>b. r = Response 201 b)) \<and>
         ((\<exists>b. r = Response 400 b) \<longrightarrow> uploaded_files s = []) \<and>
         (accepted decode cases firs req \<longrightarrow>
            r = upload_response s \<and>
            length (uploaded_files s) + length (errors s) = length (filter named (files req)) \<and>
            (\<forall>x \<in> set (files req). named x \<and> oversized x \<longrightarrow>
               VStr (filename x @ '': File too large (max 10MB)'') \<in> set (errors s)) \<and>
            (all_store st 0 (files req) \<longrightarrow>
               errors s = map (\<lambda>x. VStr (filename x @ '': File too large (max 10MB)''))
                            (filter oversized (files req)) \<and>
               length (uploaded_files s) = length (filter (\<lambda>x. \<not> oversized x) (files req))) \<and>
            (all_store st 0 (files req) \<and> length (files req) = 3 \<and>
             length (filter oversized (files req)) = 1 \<longrightarrow>
               length (errors s) = 1 \<and> length (uploaded_files s) = 2 \<and>
               (\<exists>b. r = Response 201 b)))"
proof (intro conjI impI)
  show "\<exists>b. r = Response 201 b" if "uploaded_files s \<noteq> []"
    using upload_evidence_status [OF assms] that by blast
  show "uploaded_files s = []" if "\<exists>b. r = Response 400 b"
    using upload_evidence_status [OF assms] that by blast
next
  assume acc: "accepted decode cases firs req"
  from upload_evidence_accepted [OF acc, of st now] assms
  obtain p cid fid where ids: "ObjectId_if (form_field req ''case_id'') = Inr cid"
      "ObjectId_if (form_field req ''fir_id'') = Inr fid"
    and r: "r = upload_response s"
    and s: "s = upload_all st p (get p ''user_id'') (form_field req ''case_id'')
                   (form_field req ''fir_id'') (form_field req ''notes'') now 0 (files req)
                   no_uploads"
    by auto
  show "r = upload_response s" by (rule r)
  show count: "length (uploaded_files s) + length (errors s) = length (filter named (files req))"
    unfolding s by (simp add: upload_all_count no_uploads_def)
  show "\<forall>x \<in> set (files req). named x \<and> oversized x \<longrightarrow>
          VStr (filename x @ '': File too large (max 10MB)'') \<in> set (errors s)"
    unfolding s by (auto intro: upload_all_oversized)
  have exact: "errors s = map (\<lambda>x. VStr (filename x @ '': File too large (max 10MB)''))
                            (filter oversized (files req)) \<and>
      length (uploaded_files s) = length (filter (\<lambda>x. \<not> oversized x) (files req))"
    if "all_store st 0 (files req)"
    using upload_all_exact [OF that ids, of p "get p ''user_id''" "form_field req ''notes''"
        now no_uploads]
    unfolding s by (simp add: no_uploads_def)
  show "errors s = map (\<lambda>x. VStr (filename x @ '': File too large (max 10MB)''))
                            (filter oversized (files req))"
    if "all_store st 0 (files req)"
    using exact [OF that] by blast
  show "length (uploaded_files s) = length (filter (\<lambda>x. \<not> oversized x) (files req))"
    if "all_store st 0 (files req)"
    using exact [OF that] by blast
  assume three: "all_store st 0 (files req) \<and> length (files req) = 3 \<and>
             length (filter oversized (files req)) = 1"
  have "length (filter oversized (files req)) + length (filter (\<lambda>x. \<not> oversized x) (files req))
        = length (files req)"
    by (rule sum_length_filter_compl)
  moreover from three exact
  have "length (errors s) = length (filter oversized (files req))"
    and "length (uploaded_files s) = length (filter (\<lambda>x. \<not> oversized x) (files req))"
    by simp_all
  ultimately have e: "length (errors s) = 1" and u: "length (uploaded_files s) = 2"
    using three by auto
  show "length (errors s) = 1" by (rule e)
  show "length (uploaded_files s) = 2" by (rule u)
  from u have "uploaded_files s \<noteq> []" by auto
  with upload_evidence_status [OF assms] show "\<exists>b. r = Response 201 b" by blast
qed

end
